theory Spec2Isabelle
  imports Complex_Main "HOL-Library.AList"
begin

section \<open>Outcomes of JavaScript calls\<close>

text \<open>
  A JavaScript call either returns a value or throws.  Every \<^verbatim>\<open>throw\<close> of
  \<^verbatim>\<open>server.js\<close> and of the collaborators it calls is a \<open>Throw\<close> branch of the model,
  and every \<^verbatim>\<open>try { ... } catch\<close> is a case distinction on the outcome.
\<close>

datatype exn = FsError | SyntaxError | ProtocolError | TypeError

datatype 'a outcome = Return 'a | Throw exn

definition obind :: "'a outcome \<Rightarrow> ('a \<Rightarrow> 'b outcome) \<Rightarrow> 'b outcome" where
  "obind m f = (case m of Throw e \<Rightarrow> Throw e | Return v \<Rightarrow> f v)"

section \<open>Structured data\<close>

text \<open>
  The values \<^verbatim>\<open>JSON.parse\<close> produces.  An object is the list of its own enumerable
  properties in enumeration order.  A \<open>JString\<close> holds the UTF-16 code units of the
  JavaScript string, one \<open>char\<close> each, so it covers the strings whose code units are
  below 256; the spread of a string below goes by code unit, as JavaScript does.
\<close>

datatype json =
    JNull
  | JBool bool
  | JNumber real
  | JString string
  | JArray "json list"
  | JObject "(string \<times> json) list"

text \<open>Decimal rendering of an array or string index, as a property key.\<close>

definition digit_char :: "nat \<Rightarrow> char" where
  "digit_char d = ''0123456789'' ! (d mod 10)"

fun index_key_aux :: "nat \<Rightarrow> nat \<Rightarrow> string \<Rightarrow> string" where
  "index_key_aux 0 n acc = acc"
| "index_key_aux (Suc fuel) n acc =
     (if n < 10 then digit_char n # acc
      else index_key_aux fuel (n div 10) (digit_char n # acc))"

definition index_key :: "nat \<Rightarrow> string" where
  "index_key n = index_key_aux (Suc n) n []"

text \<open>
  The own enumerable properties that the spread \<^verbatim>\<open>{...v}\<close> copies: the properties of
  an object, the indexed elements of an array, the indexed characters of a string, and
  nothing for \<^verbatim>\<open>null\<close>, booleans and numbers.
\<close>

definition own_properties :: "json \<Rightarrow> (string \<times> json) list" where
  "own_properties v =
     (case v of
        JObject kvs \<Rightarrow> kvs
      | JArray xs \<Rightarrow> map (\<lambda>i. (index_key i, xs ! i)) [0..<length xs]
      | JString s \<Rightarrow> map (\<lambda>i. (index_key i, JString [s ! i])) [0..<length s]
      | _ \<Rightarrow> [])"

text \<open>
  Defining a property on an object literal under construction: an existing key keeps its
  place and takes the new value, a new key is appended.
\<close>

definition set_property :: "string \<Rightarrow> json \<Rightarrow> (string \<times> json) list \<Rightarrow> (string \<times> json) list" where
  "set_property k v props = AList.update k v props"

definition spread :: "json \<Rightarrow> (string \<times> json) list \<Rightarrow> (string \<times> json) list" where
  "spread v props = foldl (\<lambda>acc kv. set_property (fst kv) (snd kv) acc) props (own_properties v)"


section \<open>The file system\<close>

text \<open>
  The part of \<^verbatim>\<open>fs\<close> and \<^verbatim>\<open>path\<close> that \<^verbatim>\<open>server.js\<close> calls.  A path names a regular
  file with its text, or a directory with the names \<^verbatim>\<open>readdirSync\<close> lists, in listing
  order.  Paths are written relative to the directory of \<^verbatim>\<open>server.js\<close>
  (\<^verbatim>\<open>__dirname\<close>), and the file system looks a path up as it is written.

  \<open>path_join\<close> is \<^verbatim>\<open>path.join\<close> where the program joins segments that need no
  normalisation: a session directory named by digits (lines 92, 332 and 373), the fixed
  name \<^verbatim>\<open>creds.json\<close> (line 98) and the names that \<^verbatim>\<open>readdirSync\<close> lists (lines 115
  and 122).  Where the segment comes
  from the caller (line 400), \<open>path_join_normalized\<close> below is used.
\<close>

datatype node = File string | Dir "string list"

type_synonym filesystem = "string \<Rightarrow> node option"

definition path_join :: "string \<Rightarrow> string \<Rightarrow> string" where
  "path_join a b = a @ ''/'' @ b"

text \<open>
  \<^verbatim>\<open>path.join\<close> with its normalisation (POSIX), for a relative first argument: the
  arguments are joined by a slash; the result is split at the slashes; empty segments and
  \<^verbatim>\<open>.\<close> are dropped; \<^verbatim>\<open>..\<close> removes the segment before it, and stays when there is none
  or when that is itself \<^verbatim>\<open>..\<close>; a trailing slash is kept; the empty result is
  \<^verbatim>\<open>.\<close>.
\<close>

fun segments :: "string \<Rightarrow> string \<Rightarrow> string list" where
  "segments acc [] = [rev acc]"
| "segments acc (c # cs) =
     (if c = CHR ''/'' then rev acc # segments [] cs else segments (c # acc) cs)"

fun normalize_segments :: "string list \<Rightarrow> string list \<Rightarrow> string list" where
  "normalize_segments out [] = rev out"
| "normalize_segments out (s # ss) =
     (if s = [] \<or> s = ''.'' then normalize_segments out ss
      else if s = ''..''
      then (case out of
              [] \<Rightarrow> normalize_segments [''..''] ss
            | t # ts \<Rightarrow>
                if t = ''..'' then normalize_segments (''..'' # out) ss
                else normalize_segments ts ss)
      else normalize_segments (s # out) ss)"

fun join_segments :: "string list \<Rightarrow> string" where
  "join_segments [] = []"
| "join_segments [s] = s"
| "join_segments (s # t # ss) = s @ ''/'' @ join_segments (t # ss)"

definition normalize_path :: "string \<Rightarrow> string" where
  "normalize_path p =
     (let trailingSeparator = (p \<noteq> [] \<and> last p = CHR ''/'');
          q = join_segments (normalize_segments [] (segments [] p))
      in if q = [] then (if trailingSeparator then ''./'' else ''.'')
         else if trailingSeparator then q @ ''/'' else q)"

definition path_join_normalized :: "string \<Rightarrow> string \<Rightarrow> string" where
  "path_join_normalized a b = normalize_path (if b = [] then a else a @ ''/'' @ b)"


definition sessionsDir :: string where
  "sessionsDir = ''sessions''"

definition getSessionPath :: "string \<Rightarrow> string" where
  "getSessionPath phoneNumber = path_join sessionsDir (''session_'' @ phoneNumber)"

definition existsSync :: "filesystem \<Rightarrow> string \<Rightarrow> bool" where
  "existsSync fs p = (fs p \<noteq> None)"

definition readdirSync :: "filesystem \<Rightarrow> string \<Rightarrow> string list outcome" where
  "readdirSync fs p = (case fs p of Some (Dir names) \<Rightarrow> Return names | _ \<Rightarrow> Throw FsError)"

definition startsWith :: "string \<Rightarrow> string \<Rightarrow> bool" where
  "startsWith pre s = (take (length pre) s = pre)"

text \<open>
  What the program cannot decide itself: the behaviour of the protocol library, of the
  clock and of the operating system.  Each operation of the model takes it as a parameter.
\<close>

record env =
  JSON_parse :: "string \<Rightarrow> json option"
  JSON_stringify :: "json \<Rightarrow> string"
  toISOString_now :: string
  readFileSync_throws :: "string \<Rightarrow> bool"
  mkdirSync_throws :: "string \<Rightarrow> bool"
  rmSync_throws :: "string \<Rightarrow> bool"
  unlinkSync_throws :: "string \<Rightarrow> bool"
  useMultiFileAuthState_throws :: "string \<Rightarrow> bool"
  fetchLatestBaileysVersion_throws :: bool
  makeWASocket_throws :: bool
  registered :: "nat \<Rightarrow> bool"
  requestPairingCode :: "nat \<Rightarrow> string \<Rightarrow> string \<Rightarrow> string outcome"
  sendMessage_throws :: "nat \<Rightarrow> string \<Rightarrow> string \<Rightarrow> bool"
  end_throws :: "nat \<Rightarrow> bool"
  loggedOut :: nat

definition readFileSync :: "env \<Rightarrow> filesystem \<Rightarrow> string \<Rightarrow> string outcome" where
  "readFileSync E fs p =
     (case fs p of
        Some (File s) \<Rightarrow> if readFileSync_throws E p then Throw FsError else Return s
      | _ \<Rightarrow> Throw FsError)"

text \<open>\<^verbatim>\<open>JSON.parse(fs.readFileSync(p, 'utf8'))\<close>\<close>

definition readJson :: "env \<Rightarrow> filesystem \<Rightarrow> string \<Rightarrow> json outcome" where
  "readJson E fs p =
     obind (readFileSync E fs p)
       (\<lambda>s. case JSON_parse E s of None \<Rightarrow> Throw SyntaxError | Some j \<Rightarrow> Return j)"

section \<open>Credential assembly\<close>

text \<open>The object literal of lines 127--132: the spread first, the three named keys after.\<close>

definition combinedCreds :: "json \<Rightarrow> json \<Rightarrow> json \<Rightarrow> string \<Rightarrow> json" where
  "combinedCreds credsData preKeysData senderKeysData now =
     JObject
       (set_property ''timestamp'' (JString now)
         (set_property ''senderKeys'' senderKeysData
           (set_property ''preKeys'' preKeysData
             (spread credsData []))))"

text \<open>The three reads of \<^verbatim>\<open>createCredsJson\<close>, each defaulting to the empty object.\<close>

definition read_credsData :: "env \<Rightarrow> filesystem \<Rightarrow> string \<Rightarrow> json outcome" where
  "read_credsData E fs dir =
     (let credsPath = path_join dir ''creds.json''
      in if existsSync fs credsPath then readJson E fs credsPath else Return (JObject []))"

definition read_fragment :: "env \<Rightarrow> filesystem \<Rightarrow> string \<Rightarrow> string \<Rightarrow> string list \<Rightarrow> json outcome" where
  "read_fragment E fs dir pre files =
     (case find (startsWith pre) files of
        None \<Rightarrow> Return (JObject [])
      | Some f \<Rightarrow> readJson E fs (path_join dir f))"

text \<open>The body of the \<^verbatim>\<open>try\<close> block of \<^verbatim>\<open>createCredsJson\<close> up to the combined object.\<close>

definition assemble_object :: "env \<Rightarrow> filesystem \<Rightarrow> string \<Rightarrow> json outcome" where
  "assemble_object E fs dir =
     obind (read_credsData E fs dir) (\<lambda>credsData.
     obind (readdirSync fs dir) (\<lambda>files.
     obind (read_fragment E fs dir ''pre-key-'' files) (\<lambda>preKeysData.
     obind (read_fragment E fs dir ''sender-key-'' files) (\<lambda>senderKeysData.
     Return (combinedCreds credsData preKeysData senderKeysData (toISOString_now E))))))"

text \<open>
  \<^verbatim>\<open>createCredsJson\<close>: the serialised object, or \<^verbatim>\<open>null\<close> (\<open>None\<close>) from the
  \<^verbatim>\<open>catch\<close> block.
\<close>

definition createCredsJson :: "env \<Rightarrow> filesystem \<Rightarrow> string \<Rightarrow> string option outcome" where
  "createCredsJson E fs dir =
     (case assemble_object E fs dir of
        Return obj \<Rightarrow> Return (Some (JSON_stringify E obj))
      | Throw e \<Rightarrow> Return None)"

section \<open>The Session Store and the world around it\<close>

text \<open>
  A record of \<^verbatim>\<open>activeSessions\<close>.  The handle \<open>sock\<close> is the number of the
  \<^verbatim>\<open>makeWASocket\<close> call that made the connection.  (\<^verbatim>\<open>saveCreds\<close> is a closure of the
  protocol library that \<^verbatim>\<open>server.js\<close> stores and never calls.)
\<close>

record session =
  sock :: nat
  sessionPath :: string
  connected :: bool

datatype status = Initializing | Connecting | Reconnecting | Connected | Logged_out

datatype notification =
    PairingCode string string
  | ConnectionStatus string status
  | SessionReady string string bool
  | Error "string option" string

text \<open>\<^verbatim>\<open>io.emit\<close> reaches every observer, \<^verbatim>\<open>socket.emit\<close> the requesting client only.\<close>

datatype channel = Broadcast | ToSocket nat

datatype response = Status nat string | Success string | Download string

text \<open>Who awaits a call of \<^verbatim>\<open>initializeWhatsApp\<close>.\<close>

datatype caller = SocketHandler nat | RestHandler | RetryCallback

text \<open>
  The computations that wait for the event loop: the callbacks given to
  \<^verbatim>\<open>setTimeout\<close>, and the rest of an \<^verbatim>\<open>async\<close> function suspended at an \<^verbatim>\<open>await\<close>.
  \<^item> \<open>ResumeInitialize\<close>: \<^verbatim>\<open>initializeWhatsApp\<close> from line 185 on, after the awaits of
    lines 182--183;
  \<^item> \<open>PairingTimer\<close>: the callback of line 206;
  \<^item> \<open>StabilizeTimer\<close>: the callback of line 247;
  \<^item> \<open>PacingTimer\<close>: \<^verbatim>\<open>sendSessionViaWhatsApp\<close> from line 161 on, after the delay of
    line 159, and then the stabilization callback from line 256 on;
  \<^item> \<open>RetireTimer\<close>: the callback of line 264;
  \<^item> \<open>RetryTimer\<close>: the callback of line 233;
  \<^item> \<open>UnlinkTimer\<close>: the callback of line 412.
  The arguments are the variables the closure captured.
\<close>

datatype task =
    ResumeInitialize string caller
  | PairingTimer nat string
  | StabilizeTimer nat string string
  | PacingTimer nat string string string
  | RetireTimer string string
  | RetryTimer string
  | UnlinkTimer string

text \<open>
  The state of the process.  \<open>activeSessions\<close> is the JavaScript \<^verbatim>\<open>Map\<close>, in insertion
  order.  \<open>timers\<close> holds the pending computations with their delay in milliseconds.
  The other fields record what the program did to its collaborators: notifications
  emitted, HTTP responses, the identifier each connection was made for (\<open>sockets ! n\<close> for
  handle \<open>n\<close>), the handles on which \<^verbatim>\<open>end()\<close> was called, the handles whose
  \<^verbatim>\<open>close\<close> update arrived, the \<^verbatim>\<open>sendMessage\<close> calls (handle, recipient, text), and the
  rejections nobody handled.
\<close>

record world =
  activeSessions :: "(string \<times> session) list"
  fs :: filesystem
  timers :: "(nat \<times> task) list"
  emitted :: "(channel \<times> notification) list"
  responses :: "response list"
  sockets :: "string list"
  ended :: "nat list"
  closed :: "nat list"
  outbox :: "(nat \<times> string \<times> string) list"
  unhandledRejections :: "exn list"

definition emit :: "channel \<Rightarrow> notification \<Rightarrow> world \<Rightarrow> world" where
  "emit c n w = w\<lparr>emitted := emitted w @ [(c, n)]\<rparr>"

definition respond :: "response \<Rightarrow> world \<Rightarrow> world" where
  "respond r w = w\<lparr>responses := responses w @ [r]\<rparr>"

definition setTimeout :: "task \<Rightarrow> nat \<Rightarrow> world \<Rightarrow> world" where
  "setTimeout t ms w = w\<lparr>timers := timers w @ [(ms, t)]\<rparr>"

definition has :: "world \<Rightarrow> string \<Rightarrow> bool" where
  "has w k = (map_of (activeSessions w) k \<noteq> None)"

definition store_set :: "string \<Rightarrow> session \<Rightarrow> world \<Rightarrow> world" where
  "store_set k v w = w\<lparr>activeSessions := AList.update k v (activeSessions w)\<rparr>"

definition store_delete :: "string \<Rightarrow> world \<Rightarrow> world" where
  "store_delete k w = w\<lparr>activeSessions := AList.delete k (activeSessions w)\<rparr>"

definition sock_end :: "nat \<Rightarrow> world \<Rightarrow> world" where
  "sock_end sk w = w\<lparr>ended := ended w @ [sk]\<rparr>"

text \<open>
  A connection is live when it was made and neither ended by the program nor reported
  closed by the protocol layer.
\<close>

definition live :: "world \<Rightarrow> nat \<Rightarrow> bool" where
  "live w sk = (sk < length (sockets w) \<and> sk \<notin> set (ended w) \<and> sk \<notin> set (closed w))"

section \<open>Starting a session\<close>

text \<open>
  Lines 340--350 and 377--387: the existing record is closed (an exception of \<^verbatim>\<open>end()\<close>
  is swallowed) and deleted.
\<close>

definition evictExisting :: "string \<Rightarrow> world \<Rightarrow> world" where
  "evictExisting cleanPhoneNumber w =
     (case map_of (activeSessions w) cleanPhoneNumber of
        None \<Rightarrow> w
      | Some existingSession \<Rightarrow> store_delete cleanPhoneNumber (sock_end (sock existingSession) w))"

text \<open>The \<^verbatim>\<open>catch\<close> block of \<^verbatim>\<open>initializeWhatsApp\<close> (lines 302--306), before its \<^verbatim>\<open>throw\<close>.\<close>

definition initialize_failed :: "string \<Rightarrow> world \<Rightarrow> world" where
  "initialize_failed phoneNumber w =
     emit Broadcast (Error (Some phoneNumber) ''Failed to initialize WhatsApp connection'') w"

text \<open>\<^verbatim>\<open>initializeWhatsApp\<close> up to its first \<^verbatim>\<open>await\<close> (lines 175--182).\<close>

definition initializeWhatsApp_start :: "env \<Rightarrow> string \<Rightarrow> world \<Rightarrow> world \<times> unit outcome" where
  "initializeWhatsApp_start E phoneNumber w =
     (let dir = getSessionPath phoneNumber
      in if \<not> existsSync (fs w) dir
         then (if mkdirSync_throws E dir then (initialize_failed phoneNumber w, Throw FsError)
               else (w\<lparr>fs := (fs w)(dir \<mapsto> Dir [])\<rparr>, Return ()))
         else (w, Return ()))"

text \<open>\<^verbatim>\<open>initializeWhatsApp\<close> after its awaits (lines 182--301); it returns the new handle.\<close>

definition initializeWhatsApp_resume :: "env \<Rightarrow> string \<Rightarrow> world \<Rightarrow> world \<times> nat outcome" where
  "initializeWhatsApp_resume E phoneNumber w =
     (let dir = getSessionPath phoneNumber
      in if useMultiFileAuthState_throws E dir \<or> fetchLatestBaileysVersion_throws E
            \<or> makeWASocket_throws E
         then (initialize_failed phoneNumber w, Throw ProtocolError)
         else (let sk = length (sockets w);
                   w1 = w\<lparr>sockets := sockets w @ [phoneNumber]\<rparr>;
                   w2 = store_set phoneNumber \<lparr>sock = sk, sessionPath = dir, connected = False\<rparr> w1;
                   w3 = (if \<not> registered E sk then setTimeout (PairingTimer sk phoneNumber) 3000 w2
                         else w2)
               in (w3, Return sk)))"

text \<open>
  What the awaiting caller does with the result: the \<^verbatim>\<open>catch\<close> of lines 354--357, the
  response of lines 390--393, and nothing at all in the retry callback of line 233, whose
  rejected promise is left to \<^verbatim>\<open>unhandledRejection\<close>.
\<close>

definition settle :: "caller \<Rightarrow> string \<Rightarrow> 'a outcome \<Rightarrow> world \<Rightarrow> world" where
  "settle c cleanPhoneNumber r w =
     (case c of
        SocketHandler client \<Rightarrow>
          (case r of
             Return _ \<Rightarrow> w
           | Throw e \<Rightarrow>
               emit (ToSocket client) (Error (Some cleanPhoneNumber) ''Failed to generate session'') w)
      | RestHandler \<Rightarrow>
          (case r of
             Return _ \<Rightarrow> respond (Success cleanPhoneNumber) w
           | Throw e \<Rightarrow> respond (Status 500 ''Failed to generate session'') w)
      | RetryCallback \<Rightarrow>
          (case r of
             Return _ \<Rightarrow> w
           | Throw e \<Rightarrow> w\<lparr>unhandledRejections := unhandledRejections w @ [e]\<rparr>))"

text \<open>A call \<^verbatim>\<open>await initializeWhatsApp(phoneNumber, io)\<close> up to the suspension.\<close>

definition initializeWhatsApp :: "env \<Rightarrow> string \<Rightarrow> caller \<Rightarrow> world \<Rightarrow> world" where
  "initializeWhatsApp E phoneNumber c w =
     (case initializeWhatsApp_start E phoneNumber w of
        (w1, Throw e) \<Rightarrow> settle c phoneNumber (Throw e :: unit outcome) w1
      | (w1, Return _) \<Rightarrow> setTimeout (ResumeInitialize phoneNumber c) 0 w1)"

definition resumeInitialize :: "env \<Rightarrow> string \<Rightarrow> caller \<Rightarrow> world \<Rightarrow> world" where
  "resumeInitialize E phoneNumber c w =
     (case initializeWhatsApp_resume E phoneNumber w of (w1, r) \<Rightarrow> settle c phoneNumber r w1)"

text \<open>
  The \<^verbatim>\<open>phoneNumber\<close> of a request: falsy (\<open>Absent\<close>, or the empty text), a string, or a
  truthy value that is no string and has no \<^verbatim>\<open>replace\<close> method.  For the last the
  handler throws a \<^verbatim>\<open>TypeError\<close> outside every \<^verbatim>\<open>try\<close> block, and the rejected promise
  of the \<^verbatim>\<open>async\<close> handler is handled by nobody.
\<close>

datatype payload = Absent | Text string | NonText

text \<open>\<^verbatim>\<open>phoneNumber.replace(/\D/g, '')\<close>\<close>

definition digits_only :: "string \<Rightarrow> string" where
  "digits_only s = filter (\<lambda>c. c \<in> set ''0123456789'') s"

text \<open>The handler of \<^verbatim>\<open>generateSession\<close> (lines 323--358).\<close>

definition generateSession :: "env \<Rightarrow> nat \<Rightarrow> payload \<Rightarrow> world \<Rightarrow> world" where
  "generateSession E client phoneNumber w =
     (case phoneNumber of
        Absent \<Rightarrow> emit (ToSocket client) (Error None ''Phone number is required'') w
      | NonText \<Rightarrow> w\<lparr>unhandledRejections := unhandledRejections w @ [TypeError]\<rparr>
      | Text s \<Rightarrow>
          if s = [] then emit (ToSocket client) (Error None ''Phone number is required'') w
          else (let cleanPhoneNumber = digits_only s
                in if length cleanPhoneNumber < 10
                   then emit (ToSocket client) (Error None ''Invalid phone number format'') w
                   else initializeWhatsApp E cleanPhoneNumber (SocketHandler client)
                          (emit (ToSocket client) (ConnectionStatus cleanPhoneNumber Initializing)
                            (evictExisting cleanPhoneNumber w))))"

text \<open>The handler of \<^verbatim>\<open>POST /api/generate-session\<close> (lines 366--395).\<close>

definition postGenerateSession :: "env \<Rightarrow> payload \<Rightarrow> world \<Rightarrow> world" where
  "postGenerateSession E phoneNumber w =
     (case phoneNumber of
        Absent \<Rightarrow> respond (Status 400 ''Phone number is required'') w
      | NonText \<Rightarrow> w\<lparr>unhandledRejections := unhandledRejections w @ [TypeError]\<rparr>
      | Text s \<Rightarrow>
          if s = [] then respond (Status 400 ''Phone number is required'') w
          else (let cleanPhoneNumber = digits_only s
                in initializeWhatsApp E cleanPhoneNumber RestHandler
                     (evictExisting cleanPhoneNumber w)))"

section \<open>Deferred actions and protocol events\<close>

text \<open>The pairing callback (lines 206--216), with the fixed code of line 208.\<close>

definition pairing :: "env \<Rightarrow> nat \<Rightarrow> string \<Rightarrow> world \<Rightarrow> world" where
  "pairing E sk phoneNumber w =
     (case requestPairingCode E sk phoneNumber ''SAMUEL01'' of
        Return pairingCode \<Rightarrow> emit Broadcast (PairingCode phoneNumber pairingCode) w
      | Throw e \<Rightarrow>
          emit Broadcast (Error (Some phoneNumber) ''Failed to generate custom pairing code'') w)"

text \<open>The text of lines 147--153, as the bytes of the source file.\<close>

definition instructionsMessage :: string where
  "instructionsMessage =
     [CHR 0xF0, CHR 0x9F, CHR 0x94, CHR 0x90] @
     '' *WhatsApp Session Generated Successfully*'' @ [CHR 0x0A, CHR 0x0A] @
     [CHR 0xF0, CHR 0x9F, CHR 0x93, CHR 0xB1] @ '' *Instructions:*'' @ [CHR 0x0A] @
     ''1. Save the next message as '' @ [CHR 0x22] @ ''creds.json'' @ [CHR 0x22, CHR 0x0A] @
     ''2. Use it in your WhatsApp bot project'' @ [CHR 0x0A] @
     ''3. Keep it secure and don'' @ [CHR 0x27] @ ''t share'' @ [CHR 0x0A, CHR 0x0A] @
     [CHR 0xE2, CHR 0x9A, CHR 0xA0, CHR 0xEF, CHR 0xB8, CHR 0x8F] @
     '' *Important:* This session is tied to this device. If you logout from WhatsApp, you'' @
     [CHR 0x27] @ ''ll need to generate a new session.'' @ [CHR 0x0A, CHR 0x0A] @
     ''The creds.json content will be sent in the next message...''"

definition jid_of :: "string \<Rightarrow> string" where
  "jid_of phoneNumber = phoneNumber @ ''@s.whatsapp.net''"

text \<open>
  \<^verbatim>\<open>await sock.sendMessage(jid, { text })\<close>: the call is recorded, then it resolves or
  rejects.  The code that follows the \<^verbatim>\<open>await\<close> reads nothing of the process state, so
  the model runs it at once instead of queueing it.
\<close>

definition sendMessage :: "env \<Rightarrow> nat \<Rightarrow> string \<Rightarrow> string \<Rightarrow> world \<Rightarrow> world \<times> unit outcome" where
  "sendMessage E sk jid text w =
     (w\<lparr>outbox := outbox w @ [(sk, jid, text)]\<rparr>,
      if sendMessage_throws E sk jid text then Throw ProtocolError else Return ())"

text \<open>
  The stabilization callback when \<^verbatim>\<open>sendSessionViaWhatsApp\<close> has returned \<^verbatim>\<open>false\<close>
  (line 282).
\<close>

definition delivery_failed :: "string \<Rightarrow> world \<Rightarrow> world" where
  "delivery_failed phoneNumber w =
     emit Broadcast (Error (Some phoneNumber) ''Failed to send session via WhatsApp'') w"

text \<open>
  The stabilization callback (lines 247--291) with the first half of
  \<^verbatim>\<open>sendSessionViaWhatsApp\<close> (lines 143--159), up to the pacing delay.  The test
  \<^verbatim>\<open>if (sessionData)\<close> separates \<^verbatim>\<open>null\<close> from a text: \<^verbatim>\<open>JSON.stringify\<close> of an
  object is never the empty string.
\<close>

definition stabilize :: "env \<Rightarrow> nat \<Rightarrow> string \<Rightarrow> string \<Rightarrow> world \<Rightarrow> world" where
  "stabilize E sk phoneNumber dir w =
     (case createCredsJson E (fs w) dir of
        Throw e \<Rightarrow> emit Broadcast (Error (Some phoneNumber) ''Error processing session'') w
      | Return None \<Rightarrow> emit Broadcast (Error (Some phoneNumber) ''Error creating session file'') w
      | Return (Some sessionData) \<Rightarrow>
          (case sendMessage E sk (jid_of phoneNumber) instructionsMessage w of
             (w1, Throw e) \<Rightarrow> delivery_failed phoneNumber w1
           | (w1, Return _) \<Rightarrow> setTimeout (PacingTimer sk phoneNumber dir sessionData) 2000 w1))"

text \<open>
  After the pacing delay: the second message (lines 161--165), then the rest of the
  stabilization callback (lines 256--283).
\<close>

definition pacing :: "env \<Rightarrow> nat \<Rightarrow> string \<Rightarrow> string \<Rightarrow> string \<Rightarrow> world \<Rightarrow> world" where
  "pacing E sk phoneNumber dir sessionData w =
     (case sendMessage E sk (jid_of phoneNumber) sessionData w of
        (w1, Throw e) \<Rightarrow> delivery_failed phoneNumber w1
      | (w1, Return _) \<Rightarrow>
          setTimeout (RetireTimer phoneNumber dir) 10000
            (emit Broadcast
               (SessionReady phoneNumber ''Session sent to your WhatsApp! Check your messages.'' True)
               w1))"

text \<open>\<^verbatim>\<open>fs.rmSync(p, { recursive: true, force: true })\<close>: the path and all below it.\<close>

definition rmSync :: "filesystem \<Rightarrow> string \<Rightarrow> filesystem" where
  "rmSync f p = (\<lambda>q. if q = p \<or> startsWith (p @ ''/'') q then None else f q)"

text \<open>
  The retirement callback (lines 264--280).  An exception of \<^verbatim>\<open>end()\<close> or of
  \<^verbatim>\<open>rmSync\<close> leaves the \<^verbatim>\<open>try\<close> block at once and is logged only.
\<close>

definition retire_directory :: "env \<Rightarrow> string \<Rightarrow> world \<Rightarrow> world" where
  "retire_directory E dir w =
     (if existsSync (fs w) dir
      then (if rmSync_throws E dir then w else w\<lparr>fs := rmSync (fs w) dir\<rparr>)
      else w)"

definition retire :: "env \<Rightarrow> string \<Rightarrow> string \<Rightarrow> world \<Rightarrow> world" where
  "retire E phoneNumber dir w =
     (case map_of (activeSessions w) phoneNumber of
        Some session \<Rightarrow>
          (let w1 = sock_end (sock session) w
           in if end_throws E (sock session) then w1
              else retire_directory E dir (store_delete phoneNumber w1))
      | None \<Rightarrow> retire_directory E dir w)"

text \<open>The deletion callback of the download endpoint (lines 412--420).\<close>

definition unlink :: "env \<Rightarrow> string \<Rightarrow> world \<Rightarrow> world" where
  "unlink E filePath w =
     (case fs w filePath of
        None \<Rightarrow> w
      | Some (Dir names) \<Rightarrow> w
      | Some (File s) \<Rightarrow>
          if unlinkSync_throws E filePath then w else w\<lparr>fs := (fs w)(filePath := None)\<rparr>)"

text \<open>
  A \<^verbatim>\<open>connection.update\<close> event: \<^verbatim>\<open>connection\<close> is \<^verbatim>\<open>'close'\<close> (with
  \<^verbatim>\<open>lastDisconnect?.error?.output?.statusCode\<close>, \<open>None\<close> when undefined), \<^verbatim>\<open>'open'\<close>,
  \<^verbatim>\<open>'connecting'\<close>, or anything else.
\<close>

datatype update = Close "nat option" | Open | ConnectingUpdate | OtherUpdate

text \<open>
  The handler of lines 220--296, for the connection \<open>sk\<close> made for \<open>phoneNumber\<close> with
  storage \<open>dir\<close>.
\<close>

definition connection_update :: "env \<Rightarrow> nat \<Rightarrow> string \<Rightarrow> string \<Rightarrow> update \<Rightarrow> world \<Rightarrow> world" where
  "connection_update E sk phoneNumber dir u w =
     (case u of
        Close statusCode \<Rightarrow>
          if statusCode \<noteq> Some (loggedOut E)
          then setTimeout (RetryTimer phoneNumber) 5000
                 (store_delete phoneNumber
                   (emit Broadcast (ConnectionStatus phoneNumber Reconnecting) w))
          else store_delete phoneNumber
                 (emit Broadcast (ConnectionStatus phoneNumber Logged_out) w)
      | Open \<Rightarrow>
          (let w1 = emit Broadcast (ConnectionStatus phoneNumber Connected) w
           in case map_of (activeSessions w1) phoneNumber of
                None \<Rightarrow> w1
              | Some session \<Rightarrow>
                  setTimeout (StabilizeTimer sk phoneNumber dir) 3000
                    (store_set phoneNumber (session\<lparr>connected := True\<rparr>) w1))
      | ConnectingUpdate \<Rightarrow> emit Broadcast (ConnectionStatus phoneNumber Connecting) w
      | OtherUpdate \<Rightarrow> w)"

section \<open>The download endpoint\<close>

text \<open>
  \<^verbatim>\<open>GET /download/:filename\<close> (lines 398--423) and the callback of \<^verbatim>\<open>res.download\<close>.
  The route parameter is decoded before the handler sees it, so \<open>filename\<close> can be any
  non-empty text, slashes and \<^verbatim>\<open>..\<close> included.
\<close>

definition download :: "string \<Rightarrow> world \<Rightarrow> world" where
  "download filename w =
     (let filePath = path_join_normalized sessionsDir filename
      in if \<not> existsSync (fs w) filePath then respond (Status 404 ''File not found'') w
         else respond (Download filePath) w)"

definition download_callback :: "string \<Rightarrow> bool \<Rightarrow> world \<Rightarrow> world" where
  "download_callback filePath err w =
     (if err then respond (Status 500 ''Download failed'') w
      else setTimeout (UnlinkTimer filePath) 5000 w)"

section \<open>The event loop\<close>

fun run_task :: "env \<Rightarrow> task \<Rightarrow> world \<Rightarrow> world" where
  "run_task E (ResumeInitialize phoneNumber c) w = resumeInitialize E phoneNumber c w"
| "run_task E (PairingTimer sk phoneNumber) w = pairing E sk phoneNumber w"
| "run_task E (StabilizeTimer sk phoneNumber dir) w = stabilize E sk phoneNumber dir w"
| "run_task E (PacingTimer sk phoneNumber dir sessionData) w = pacing E sk phoneNumber dir sessionData w"
| "run_task E (RetireTimer phoneNumber dir) w = retire E phoneNumber dir w"
| "run_task E (RetryTimer phoneNumber) w = initializeWhatsApp E phoneNumber RetryCallback w"
| "run_task E (UnlinkTimer filePath) w = unlink E filePath w"

text \<open>
  What the event loop can run next: a request, the callback of a started download, a
  connection update for a connection that was made, or the pending computation at
  position \<open>n\<close>.  \<open>GenerateSessionNoData\<close> is a \<^verbatim>\<open>generateSession\<close> event that
  carries no data object: the destructuring of line 324 throws a \<^verbatim>\<open>TypeError\<close>, nothing
  is sent to the client, and nobody handles the rejection.
\<close>

datatype event =
    GenerateSession nat payload
  | GenerateSessionNoData nat
  | PostGenerateSession payload
  | GetDownload string
  | DownloadCallback string bool
  | ConnectionUpdate nat update
  | Fire nat

definition fire :: "env \<Rightarrow> nat \<Rightarrow> world \<Rightarrow> world" where
  "fire E n w =
     (if n < length (timers w)
      then run_task E (snd (timers w ! n)) (w\<lparr>timers := take n (timers w) @ drop (Suc n) (timers w)\<rparr>)
      else w)"

definition note_closed :: "nat \<Rightarrow> update \<Rightarrow> world \<Rightarrow> world" where
  "note_closed sk u w = (case u of Close c \<Rightarrow> w\<lparr>closed := closed w @ [sk]\<rparr> | _ \<Rightarrow> w)"

fun step :: "env \<Rightarrow> event \<Rightarrow> world \<Rightarrow> world" where
  "step E (GenerateSession client phoneNumber) w = generateSession E client phoneNumber w"
| "step E (GenerateSessionNoData client) w =
     w\<lparr>unhandledRejections := unhandledRejections w @ [TypeError]\<rparr>"
| "step E (PostGenerateSession phoneNumber) w = postGenerateSession E phoneNumber w"
| "step E (GetDownload filename) w = download filename w"
| "step E (DownloadCallback filePath err) w =
     (if Download filePath \<in> set (responses w) then download_callback filePath err w else w)"
| "step E (ConnectionUpdate sk u) w =
     (if sk < length (sockets w)
      then connection_update E sk (sockets w ! sk) (getSessionPath (sockets w ! sk)) u
             (note_closed sk u w)
      else w)"
| "step E (Fire n) w = fire E n w"

definition run :: "env \<Rightarrow> event list \<Rightarrow> world \<Rightarrow> world" where
  "run E evs w = foldl (\<lambda>w' ev. step E ev w') w evs"

text \<open>The process at start: no session, the sessions directory made (lines 85--88).\<close>

definition boot :: world where
  "boot =
     \<lparr>activeSessions = [], fs = [sessionsDir \<mapsto> Dir []], timers = [], emitted = [],
      responses = [], sockets = [], ended = [], closed = [], outbox = [],
      unhandledRejections = []\<rparr>"

text \<open>
  An environment in which no collaborator fails: nothing is registered yet, the pairing
  code is granted, and the status code of a logout is 401.  Its parser and serialiser are
  stand-ins that tell the empty object from everything else.
\<close>

definition calm :: env where
  "calm =
     \<lparr>JSON_parse = (\<lambda>s. if s = ''{}'' then Some (JObject []) else None),
      JSON_stringify = (\<lambda>j. if j = JObject [] then ''{}'' else ''{...}''),
      toISOString_now = ''2024-01-01T00:00:00.000Z'',
      readFileSync_throws = (\<lambda>p. False),
      mkdirSync_throws = (\<lambda>p. False),
      rmSync_throws = (\<lambda>p. False),
      unlinkSync_throws = (\<lambda>p. False),
      useMultiFileAuthState_throws = (\<lambda>p. False),
      fetchLatestBaileysVersion_throws = False,
      makeWASocket_throws = False,
      registered = (\<lambda>sk. False),
      requestPairingCode = (\<lambda>sk phoneNumber code. Return code),
      sendMessage_throws = (\<lambda>sk jid text. False),
      end_throws = (\<lambda>sk. False),
      loggedOut = 401\<rparr>"

text \<open>The Store as a \<^verbatim>\<open>Map\<close>: no key occurs twice.\<close>

definition store_ok :: "world \<Rightarrow> bool" where
  "store_ok w = distinct (map fst (activeSessions w))"

section \<open>Concrete inputs\<close>

text \<open>Storage directories: an empty one, and three with a file that cannot be read or parsed.\<close>

definition empty_dir :: filesystem where
  "empty_dir = [''d'' \<mapsto> Dir []]"

definition broken_creds :: filesystem where
  "broken_creds = [''d'' \<mapsto> Dir [''creds.json''], ''d/creds.json'' \<mapsto> File ''{'']"

definition broken_prekey :: filesystem where
  "broken_prekey = [''d'' \<mapsto> Dir [''pre-key-7.json''], ''d/pre-key-7.json'' \<mapsto> Dir []]"

definition broken_senderkey :: filesystem where
  "broken_senderkey = [''d'' \<mapsto> Dir [''sender-key-a.json'']]"




text \<open>An identifier, a world with one registered session for it, and event sequences.\<close>

definition pid :: string where
  "pid = ''15551234567''"

definition one_session :: world where
  "one_session = run calm [GenerateSession 0 (Text pid), Fire 0] boot"

text \<open>
  Two requests for the same identifier, the second arriving while the first is suspended
  at the awaits of \<^verbatim>\<open>initializeWhatsApp\<close>; then the first initialisation resumes, and
  then the second.
\<close>

definition twice_quickly :: "event list" where
  "twice_quickly = [GenerateSession 0 (Text pid), GenerateSession 1 (Text pid), Fire 0, Fire 0]"

text \<open>
  A delivery on the first connection, then a new request for the same identifier within
  the retirement delay.  In order: the request; its initialisation resumes and registers
  connection 0; the pairing callback; the \<^verbatim>\<open>open\<close> update of connection 0; the
  stabilization callback, which sends the first message; the second half of the delivery,
  which sends the second message and schedules the retirement; the new request, which
  evicts connection 0; its initialisation resumes and registers connection 1 (the
  retirement timer is at position 0 of the queue, this initialisation at position 1).
\<close>

definition superseded_delivery :: "event list" where
  "superseded_delivery =
     [GenerateSession 0 (Text pid), Fire 0, Fire 0, ConnectionUpdate 0 Open, Fire 0, Fire 0,
      GenerateSession 1 (Text pid), Fire 1]"

text \<open>A completed delivery: the first six events of the sequence above.\<close>

definition delivered :: "event list" where
  "delivered =
     [GenerateSession 0 (Text pid), Fire 0, Fire 0, ConnectionUpdate 0 Open, Fire 0, Fire 0]"

text \<open>
  The first connection closes without a logout (status 428), and a new request for the
  same identifier is served within the backoff delay.  In order: the request; its
  initialisation resumes and registers connection 0; the pairing callback; the
  \<^verbatim>\<open>close\<close> update of connection 0, which removes the record and schedules the retry;
  the new request; its initialisation resumes and registers connection 1 (the retry timer
  is at position 0 of the queue, this initialisation at position 1).
\<close>

definition retry_over_newer :: "event list" where
  "retry_over_newer =
     [GenerateSession 0 (Text pid), Fire 0, Fire 0, ConnectionUpdate 0 (Close (Some 428)),
      GenerateSession 1 (Text pid), Fire 1]"

text \<open>An environment in which \<^verbatim>\<open>end()\<close> throws.\<close>

definition stubborn :: env where
  "stubborn = calm\<lparr>end_throws := (\<lambda>sk. True)\<rparr>"

text \<open>An environment in which every collaborator fails.\<close>

definition failing :: env where
  "failing =
     calm\<lparr>mkdirSync_throws := (\<lambda>p. True), makeWASocket_throws := True,
          requestPairingCode := (\<lambda>sk phoneNumber code. Throw ProtocolError),
          sendMessage_throws := (\<lambda>sk jid text. True), end_throws := (\<lambda>sk. True)\<rparr>"


text \<open>
  A session up to its \<^verbatim>\<open>open\<close> update (the first four events of the sequences above),
  with the stabilization callback pending, in an environment where sending fails.
\<close>

definition opened :: "event list" where
  "opened = [GenerateSession 0 (Text pid), Fire 0, Fire 0, ConnectionUpdate 0 Open]"

definition mute :: env where
  "mute = calm\<lparr>sendMessage_throws := (\<lambda>sk jid text. True)\<rparr>"



section \<open>Properties of the credential assembler\<close>





text \<open>
  C5.  \<^verbatim>\<open>createCredsJson\<close> never throws: it always returns, either the serialised
  artifact or \<^verbatim>\<open>null\<close>.  On a directory with no files it returns the serialisation of
  the empty base credentials merged with empty \<^verbatim>\<open>preKeys\<close>, empty \<^verbatim>\<open>senderKeys\<close>
  and the timestamp.  Whenever one of its reads fails (the base credentials file that
  exists, the directory listing, the first pre-key file, the first sender-key file: the
  file cannot be read, or its text does not parse), it returns \<^verbatim>\<open>null\<close>.
\<close>

theorem createCredsJson_soft_failure:
  "(\<exists>r. createCredsJson E f dir = Return r) \<and>
   (f dir = Some (Dir []) \<and> f (path_join dir ''creds.json'') = None \<longrightarrow>
      createCredsJson E f dir =
        Return (Some (JSON_stringify E
          (JObject [(''preKeys'', JObject []), (''senderKeys'', JObject []),
                    (''timestamp'', JString (toISOString_now E))])))) \<and>
   (existsSync f (path_join dir ''creds.json'') \<and>
      readJson E f (path_join dir ''creds.json'') = Throw e1 \<longrightarrow>
      createCredsJson E f dir = Return None) \<and>
   (readdirSync f dir = Throw e2 \<longrightarrow> createCredsJson E f dir = Return None) \<and>
   (readdirSync f dir = Return files \<and> find (startsWith ''pre-key-'') files = Some p \<and>
      readJson E f (path_join dir p) = Throw e3 \<longrightarrow> createCredsJson E f dir = Return None) \<and>
   (readdirSync f dir = Return files \<and> find (startsWith ''sender-key-'') files = Some q \<and>
      readJson E f (path_join dir q) = Throw e4 \<longrightarrow> createCredsJson E f dir = Return None)"
proof (intro conjI impI)
  show "\<exists>r. createCredsJson E f dir = Return r"
    by (cases "assemble_object E f dir") (simp_all add: createCredsJson_def)
next
  assume "f dir = Some (Dir []) \<and> f (path_join dir ''creds.json'') = None"
  then show "createCredsJson E f dir =
        Return (Some (JSON_stringify E
          (JObject [(''preKeys'', JObject []), (''senderKeys'', JObject []),
                    (''timestamp'', JString (toISOString_now E))])))"
    by (simp add: createCredsJson_def assemble_object_def read_credsData_def existsSync_def
        readdirSync_def read_fragment_def obind_def combinedCreds_def spread_def
        own_properties_def set_property_def)
next
  assume "existsSync f (path_join dir ''creds.json'') \<and>
      readJson E f (path_join dir ''creds.json'') = Throw e1"
  then show "createCredsJson E f dir = Return None"
    by (simp add: createCredsJson_def assemble_object_def read_credsData_def obind_def)
next
  assume "readdirSync f dir = Throw e2"
  then show "createCredsJson E f dir = Return None"
    by (simp add: createCredsJson_def assemble_object_def obind_def split: outcome.splits)
next
  assume "readdirSync f dir = Return files \<and> find (startsWith ''pre-key-'') files = Some p \<and>
      readJson E f (path_join dir p) = Throw e3"
  then show "createCredsJson E f dir = Return None"
    by (simp add: createCredsJson_def assemble_object_def read_fragment_def obind_def
        split: outcome.splits)
next
  assume "readdirSync f dir = Return files \<and> find (startsWith ''sender-key-'') files = Some q \<and>
      readJson E f (path_join dir q) = Throw e4"
  then show "createCredsJson E f dir = Return None"
    by (simp add: createCredsJson_def assemble_object_def read_fragment_def obind_def
        split: outcome.splits)
qed

theorem createCredsJson_soft_failure_witness:
  "createCredsJson calm empty_dir ''d'' = Return (Some ''{...}'') \<and>
   createCredsJson calm broken_creds ''d'' = Return None \<and>
   createCredsJson calm Map.empty ''d'' = Return None \<and>
   createCredsJson calm broken_prekey ''d'' = Return None \<and>
   createCredsJson calm broken_senderkey ''d'' = Return None"
  using createCredsJson_soft_failure [of calm empty_dir "''d''"]
    createCredsJson_soft_failure [of calm broken_creds "''d''" SyntaxError]
    createCredsJson_soft_failure [of calm Map.empty "''d''" _ FsError]
    createCredsJson_soft_failure [of calm broken_prekey "''d''" _ _ "[''pre-key-7.json'']"
      "''pre-key-7.json''" FsError]
    createCredsJson_soft_failure [of calm broken_senderkey "''d''" _ _ "[''sender-key-a.json'']"
      _ _ "''sender-key-a.json''" FsError]
  by (simp add: calm_def empty_dir_def broken_creds_def broken_prekey_def broken_senderkey_def
      path_join_def existsSync_def readdirSync_def readJson_def readFileSync_def obind_def
      startsWith_def)




section \<open>Properties of the Session Store\<close>

lemmas prim_defs = emit_def respond_def setTimeout_def store_set_def store_delete_def sock_end_def

lemma activeSessions_evictExisting:
  "activeSessions (evictExisting p w) = AList.delete p (activeSessions w)"
proof (cases "map_of (activeSessions w) p")
  case None
  then have "p \<notin> fst ` set (activeSessions w)"
    by (simp add: map_of_eq_None_iff)
  with None show ?thesis
    by (simp add: evictExisting_def delete_id)
next
  case (Some r)
  then show ?thesis
    by (simp add: evictExisting_def prim_defs)
qed

lemma ended_evictExisting:
  "ended (evictExisting p w) =
     (case map_of (activeSessions w) p of None \<Rightarrow> ended w | Some r \<Rightarrow> ended w @ [sock r])"
  by (simp add: evictExisting_def prim_defs split: option.splits)

lemma sockets_evictExisting: "sockets (evictExisting p w) = sockets w"
  by (simp add: evictExisting_def prim_defs split: option.splits)

lemma initializeWhatsApp_keeps:
  "activeSessions (initializeWhatsApp E p c w) = activeSessions w"
  "ended (initializeWhatsApp E p c w) = ended w"
  "sockets (initializeWhatsApp E p c w) = sockets w"
  "closed (initializeWhatsApp E p c w) = closed w"
  "outbox (initializeWhatsApp E p c w) = outbox w"
  by (simp_all add: initializeWhatsApp_def initializeWhatsApp_start_def initialize_failed_def
      settle_def prim_defs Let_def split: caller.splits)

lemma resumeInitialize_success:
  assumes "\<not> useMultiFileAuthState_throws E (getSessionPath p)"
    "\<not> fetchLatestBaileysVersion_throws E" "\<not> makeWASocket_throws E"
  shows "activeSessions (resumeInitialize E p c w) =
           AList.update p \<lparr>sock = length (sockets w), sessionPath = getSessionPath p, connected = False\<rparr>
             (activeSessions w)"
    and "sockets (resumeInitialize E p c w) = sockets w @ [p]"
    and "ended (resumeInitialize E p c w) = ended w"
    and "closed (resumeInitialize E p c w) = closed w"
  using assms
  by (simp_all add: resumeInitialize_def initializeWhatsApp_resume_def settle_def prim_defs Let_def
      split: caller.splits)

lemma resumeInitialize_failure:
  assumes "useMultiFileAuthState_throws E (getSessionPath p) \<or>
    fetchLatestBaileysVersion_throws E \<or> makeWASocket_throws E"
  shows "activeSessions (resumeInitialize E p c w) = activeSessions w"
  using assms
  by (auto simp add: resumeInitialize_def initializeWhatsApp_resume_def settle_def prim_defs Let_def
      initialize_failed_def split: caller.splits)

lemma store_ok_resumeInitialize: "store_ok w \<Longrightarrow> store_ok (resumeInitialize E p c w)"
  by (cases "useMultiFileAuthState_throws E (getSessionPath p) \<or>
    fetchLatestBaileysVersion_throws E \<or> makeWASocket_throws E")
    (simp_all add: store_ok_def resumeInitialize_failure resumeInitialize_success distinct_update)

lemma store_ok_generateSession: "store_ok w \<Longrightarrow> store_ok (generateSession E client ph w)"
  by (cases ph)
    (simp_all add: store_ok_def generateSession_def Let_def initializeWhatsApp_keeps
      activeSessions_evictExisting distinct_delete prim_defs)

lemma store_ok_postGenerateSession: "store_ok w \<Longrightarrow> store_ok (postGenerateSession E ph w)"
  by (cases ph)
    (simp_all add: store_ok_def postGenerateSession_def Let_def initializeWhatsApp_keeps
      activeSessions_evictExisting distinct_delete prim_defs)

lemma activeSessions_pairing: "activeSessions (pairing E sk p w) = activeSessions w"
  by (simp add: pairing_def prim_defs split: outcome.splits)

lemma activeSessions_stabilize: "activeSessions (stabilize E sk p dir w) = activeSessions w"
  by (simp add: stabilize_def sendMessage_def delivery_failed_def prim_defs
      split: outcome.splits option.splits)

lemma activeSessions_pacing: "activeSessions (pacing E sk p dir d w) = activeSessions w"
  by (simp add: pacing_def sendMessage_def delivery_failed_def prim_defs)

lemma activeSessions_retire_directory: "activeSessions (retire_directory E dir w) = activeSessions w"
  by (simp add: retire_directory_def)

lemma store_ok_retire: "store_ok w \<Longrightarrow> store_ok (retire E p dir w)"
  by (simp add: store_ok_def retire_def Let_def activeSessions_retire_directory prim_defs
      distinct_delete split: option.splits)

lemma activeSessions_unlink: "activeSessions (unlink E fp w) = activeSessions w"
  by (simp add: unlink_def split: option.splits node.splits)

lemma store_ok_connection_update: "store_ok w \<Longrightarrow> store_ok (connection_update E sk p dir u w)"
  by (cases u)
    (simp_all add: store_ok_def connection_update_def Let_def prim_defs distinct_delete
      distinct_update split: option.splits)

lemma store_ok_run_task: "store_ok w \<Longrightarrow> store_ok (run_task E t w)"
  by (cases t)
    (simp_all add: store_ok_resumeInitialize store_ok_retire,
      simp_all add: store_ok_def activeSessions_pairing activeSessions_stabilize
        activeSessions_pacing activeSessions_unlink initializeWhatsApp_keeps)

lemma store_ok_step: "store_ok w \<Longrightarrow> store_ok (step E ev w)"
proof (cases ev)
  case (Fire n)
  assume ok: "store_ok w"
  then have "store_ok (w\<lparr>timers := take n (timers w) @ drop (Suc n) (timers w)\<rparr>)"
    by (simp add: store_ok_def)
  then show ?thesis using ok Fire by (simp add: fire_def store_ok_run_task)
next
  case (ConnectionUpdate sk u)
  assume ok: "store_ok w"
  then have "store_ok (note_closed sk u w)"
    by (cases u) (simp_all add: store_ok_def note_closed_def)
  then show ?thesis using ok ConnectionUpdate by (simp add: store_ok_connection_update)
qed (simp_all add: store_ok_generateSession store_ok_postGenerateSession,
    simp_all add: store_ok_def download_def download_callback_def Let_def prim_defs)

lemma store_ok_run: "store_ok w \<Longrightarrow> store_ok (run E evs w)"
  unfolding run_def by (induction evs arbitrary: w) (simp_all add: store_ok_step)

lemma store_ok_boot: "store_ok boot"
  by (simp add: store_ok_def boot_def)

lemma has_delete: "\<not> has (store_delete p w) p"
  by (simp add: has_def store_delete_def delete_conv')

lemma has_evictExisting: "\<not> has (evictExisting p w) p"
  by (simp add: has_def activeSessions_evictExisting delete_conv')

text \<open>
  C1 (as amended).  At every instant the Store holds at most one record for an
  identifier.  When a request for an identifier that has a record is accepted, by either
  entry point, the handler calls \<^verbatim>\<open>end()\<close> on the old record's handle and removes the
  record before it hands over to \<^verbatim>\<open>initializeWhatsApp\<close>, and no connection has been made
  by then: the new connection is made and registered when \<^verbatim>\<open>initializeWhatsApp\<close> resumes
  after its awaits, under a fresh handle.  (That registration is unconditional, so two
  live connections for one identifier can coexist; see the counterexample.)
\<close>

theorem eviction_before_registration:
  "distinct (map fst (activeSessions (run E evs boot))) \<and>
   (map_of (activeSessions w) (digits_only s) = Some old \<and> 10 \<le> length (digits_only s) \<longrightarrow>
      sock old \<in> set (ended (generateSession E client (Text s) w)) \<and>
      \<not> has (generateSession E client (Text s) w) (digits_only s) \<and>
      sockets (generateSession E client (Text s) w) = sockets w) \<and>
   (map_of (activeSessions w) (digits_only s) = Some old \<and> s \<noteq> [] \<longrightarrow>
      sock old \<in> set (ended (postGenerateSession E (Text s) w)) \<and>
      \<not> has (postGenerateSession E (Text s) w) (digits_only s) \<and>
      sockets (postGenerateSession E (Text s) w) = sockets w) \<and>
   (\<not> useMultiFileAuthState_throws E (getSessionPath p) \<and> \<not> fetchLatestBaileysVersion_throws E \<and>
      \<not> makeWASocket_throws E \<longrightarrow>
      map_of (activeSessions (resumeInitialize E p c w)) p =
        Some \<lparr>sock = length (sockets w), sessionPath = getSessionPath p, connected = False\<rparr> \<and>
      sockets (resumeInitialize E p c w) = sockets w @ [p] \<and>
      ended (resumeInitialize E p c w) = ended w)"
proof (intro conjI impI)
  show "distinct (map fst (activeSessions (run E evs boot)))"
    using store_ok_run [OF store_ok_boot] by (simp add: store_ok_def)
next
  assume h: "map_of (activeSessions w) (digits_only s) = Some old \<and> 10 \<le> length (digits_only s)"
  then have ne: "s \<noteq> []" by (auto simp: digits_only_def)
  let ?w = "emit (ToSocket client) (ConnectionStatus (digits_only s) Initializing)
              (evictExisting (digits_only s) w)"
  from h ne have eq: "generateSession E client (Text s) w =
      initializeWhatsApp E (digits_only s) (SocketHandler client) ?w"
    by (simp add: generateSession_def Let_def)
  from h show "sock old \<in> set (ended (generateSession E client (Text s) w))"
    by (simp add: eq initializeWhatsApp_keeps emit_def ended_evictExisting)
  show "\<not> has (generateSession E client (Text s) w) (digits_only s)"
    using has_evictExisting [of "digits_only s" w]
    by (simp add: eq has_def initializeWhatsApp_keeps emit_def)
  show "sockets (generateSession E client (Text s) w) = sockets w"
    by (simp add: eq initializeWhatsApp_keeps emit_def sockets_evictExisting)
next
  assume h: "map_of (activeSessions w) (digits_only s) = Some old \<and> s \<noteq> []"
  then have eq: "postGenerateSession E (Text s) w =
      initializeWhatsApp E (digits_only s) RestHandler (evictExisting (digits_only s) w)"
    by (simp add: postGenerateSession_def Let_def)
  from h show "sock old \<in> set (ended (postGenerateSession E (Text s) w))"
    by (simp add: eq initializeWhatsApp_keeps ended_evictExisting)
  show "\<not> has (postGenerateSession E (Text s) w) (digits_only s)"
    using has_evictExisting [of "digits_only s" w]
    by (simp add: eq has_def initializeWhatsApp_keeps)
  show "sockets (postGenerateSession E (Text s) w) = sockets w"
    by (simp add: eq initializeWhatsApp_keeps sockets_evictExisting)
next
  assume h: "\<not> useMultiFileAuthState_throws E (getSessionPath p) \<and>
      \<not> fetchLatestBaileysVersion_throws E \<and> \<not> makeWASocket_throws E"
  then show "map_of (activeSessions (resumeInitialize E p c w)) p =
        Some \<lparr>sock = length (sockets w), sessionPath = getSessionPath p, connected = False\<rparr>"
    by (simp add: resumeInitialize_success update_conv')
  from h show "sockets (resumeInitialize E p c w) = sockets w @ [p]"
    by (simp add: resumeInitialize_success)
  from h show "ended (resumeInitialize E p c w) = ended w"
    by (simp add: resumeInitialize_success)
qed

theorem eviction_before_registration_witness:
  "map_of (activeSessions one_session) pid =
     Some \<lparr>sock = 0, sessionPath = getSessionPath pid, connected = False\<rparr> \<and>
   digits_only ''+1 (555) 123-4567'' = pid \<and>
   distinct (map fst (activeSessions (run calm twice_quickly boot))) \<and>
   0 \<in> set (ended (generateSession calm 1 (Text ''+1 (555) 123-4567'') one_session)) \<and>
   \<not> has (generateSession calm 1 (Text ''+1 (555) 123-4567'') one_session) pid \<and>
   0 \<in> set (ended (postGenerateSession calm (Text ''+1 (555) 123-4567'') one_session)) \<and>
   \<not> has (postGenerateSession calm (Text ''+1 (555) 123-4567'') one_session) pid \<and>
   map_of (activeSessions (resumeInitialize calm pid RestHandler one_session)) pid =
     Some \<lparr>sock = 1, sessionPath = getSessionPath pid, connected = False\<rparr>"
proof -
  have rec: "map_of (activeSessions one_session) pid =
     Some \<lparr>sock = 0, sessionPath = getSessionPath pid, connected = False\<rparr>"
    by code_simp
  have dig: "digits_only ''+1 (555) 123-4567'' = pid"
    by code_simp
  have len: "10 \<le> length (digits_only ''+1 (555) 123-4567'')" "''+1 (555) 123-4567'' \<noteq> []"
    by (simp_all add: dig pid_def)
  have quiet: "\<not> useMultiFileAuthState_throws calm (getSessionPath pid)"
    "\<not> fetchLatestBaileysVersion_throws calm" "\<not> makeWASocket_throws calm"
    by (simp_all add: calm_def)
  have n: "length (sockets one_session) = 1"
    by code_simp
  from eviction_before_registration [of calm twice_quickly one_session "''+1 (555) 123-4567''"
      "\<lparr>sock = 0, sessionPath = getSessionPath pid, connected = False\<rparr>" 1 pid RestHandler]
    rec dig len quiet n
  show ?thesis by simp
qed

text \<open>
  C1 as stated fails: after two requests in quick succession both connections are live
  for the same identifier, and only the second is in the Store.
\<close>

theorem two_live_connections_counterexample:
  "sockets (run calm twice_quickly boot) = [pid, pid] \<and>
   live (run calm twice_quickly boot) 0 \<and> live (run calm twice_quickly boot) 1 \<and>
   map (sock \<circ> snd) (activeSessions (run calm twice_quickly boot)) = [1]"
  by code_simp


section \<open>Evaluated event sequences\<close>

text \<open>The worlds that the event sequences above lead to, computed once.\<close>

lemmas step_defs =
  step.simps run_task.simps fire_def generateSession_def postGenerateSession_def Let_def
  digits_only_def evictExisting_def initializeWhatsApp_def initializeWhatsApp_start_def
  initialize_failed_def getSessionPath_def path_join_def sessionsDir_def existsSync_def
  resumeInitialize_def initializeWhatsApp_resume_def settle_def pairing_def
  connection_update_def note_closed_def stabilize_def createCredsJson_def assemble_object_def
  read_credsData_def readdirSync_def read_fragment_def obind_def combinedCreds_def spread_def
  own_properties_def set_property_def sendMessage_def jid_of_def pacing_def delivery_failed_def
  retire_def retire_directory_def rmSync_def startsWith_def unlink_def download_def
  download_callback_def emit_def respond_def setTimeout_def store_set_def store_delete_def
  sock_end_def

lemmas eval_defs = run_def step_defs

lemma superseded_world:
  "run calm superseded_delivery boot =
     \<lparr>activeSessions = [(pid, \<lparr>sock = 1, sessionPath = getSessionPath pid, connected = False\<rparr>)],
      fs = [sessionsDir \<mapsto> Dir [], getSessionPath pid \<mapsto> Dir []],
      timers = [(10000, RetireTimer pid (getSessionPath pid)), (3000, PairingTimer 1 pid)],
      emitted =
        [(ToSocket 0, ConnectionStatus pid Initializing),
         (Broadcast, PairingCode pid ''SAMUEL01''),
         (Broadcast, ConnectionStatus pid Connected),
         (Broadcast, SessionReady pid ''Session sent to your WhatsApp! Check your messages.'' True),
         (ToSocket 1, ConnectionStatus pid Initializing)],
      responses = [], sockets = [pid, pid], ended = [0], closed = [],
      outbox = [(0, jid_of pid, instructionsMessage), (0, jid_of pid, ''{...}'')],
      unhandledRejections = []\<rparr>"
  by (simp add: superseded_delivery_def pid_def calm_def boot_def eval_defs)

lemma retry_world:
  "run calm retry_over_newer boot =
     \<lparr>activeSessions = [(pid, \<lparr>sock = 1, sessionPath = getSessionPath pid, connected = False\<rparr>)],
      fs = [sessionsDir \<mapsto> Dir [], getSessionPath pid \<mapsto> Dir []],
      timers = [(5000, RetryTimer pid), (3000, PairingTimer 1 pid)],
      emitted =
        [(ToSocket 0, ConnectionStatus pid Initializing),
         (Broadcast, PairingCode pid ''SAMUEL01''),
         (Broadcast, ConnectionStatus pid Reconnecting),
         (ToSocket 1, ConnectionStatus pid Initializing)],
      responses = [], sockets = [pid, pid], ended = [], closed = [0], outbox = [],
      unhandledRejections = []\<rparr>"
  by (simp add: retry_over_newer_def pid_def calm_def boot_def eval_defs)

lemma delivered_world:
  "run stubborn delivered boot =
     \<lparr>activeSessions = [(pid, \<lparr>sock = 0, sessionPath = getSessionPath pid, connected = True\<rparr>)],
      fs = [sessionsDir \<mapsto> Dir [], getSessionPath pid \<mapsto> Dir []],
      timers = [(10000, RetireTimer pid (getSessionPath pid))],
      emitted =
        [(ToSocket 0, ConnectionStatus pid Initializing),
         (Broadcast, PairingCode pid ''SAMUEL01''),
         (Broadcast, ConnectionStatus pid Connected),
         (Broadcast, SessionReady pid ''Session sent to your WhatsApp! Check your messages.'' True)],
      responses = [], sockets = [pid], ended = [], closed = [],
      outbox = [(0, jid_of pid, instructionsMessage), (0, jid_of pid, ''{...}'')],
      unhandledRejections = []\<rparr>"
  by (simp add: delivered_def stubborn_def pid_def calm_def boot_def eval_defs)

lemma one_session_world:
  "one_session =
     \<lparr>activeSessions = [(pid, \<lparr>sock = 0, sessionPath = getSessionPath pid, connected = False\<rparr>)],
      fs = [sessionsDir \<mapsto> Dir [], getSessionPath pid \<mapsto> Dir []],
      timers = [(3000, PairingTimer 0 pid)],
      emitted = [(ToSocket 0, ConnectionStatus pid Initializing)],
      responses = [], sockets = [pid], ended = [], closed = [], outbox = [],
      unhandledRejections = []\<rparr>"
  by (simp add: one_session_def pid_def calm_def boot_def eval_defs)

section \<open>Retirement after delivery\<close>

lemma not_exists_rmSync: "\<not> existsSync (rmSync f p) p"
  by (simp add: existsSync_def rmSync_def)

lemma retire_directory_keeps:
  "timers (retire_directory E dir w) = timers w"
  "ended (retire_directory E dir w) = ended w"
  "emitted (retire_directory E dir w) = emitted w"
  "unhandledRejections (retire_directory E dir w) = unhandledRejections w"
  by (simp_all add: retire_directory_def)

lemma retire_directory_removes:
  "\<not> rmSync_throws E dir \<Longrightarrow> \<not> existsSync (fs (retire_directory E dir w)) dir"
  by (simp add: retire_directory_def not_exists_rmSync)

text \<open>
  C2 (as amended).  A delivery that completes schedules exactly one retirement action,
  10000 ms later (a delivery whose second send fails schedules none), and firing it takes
  it off the queue.  At fire time the action asks only whether a record is stored under
  the identifier, not whether it is the record of the connection that delivered.  If none
  is stored it closes no connection and leaves the Store alone.  If one is stored it calls
  \<^verbatim>\<open>end()\<close> on that record's handle and on no other, whichever connection that is, and,
  when \<^verbatim>\<open>end()\<close> returns, removes the record.  When no record was stored, or
  \<^verbatim>\<open>end()\<close> has returned, and the file system does not refuse the deletion, the
  storage directory of the identifier no longer exists afterwards.
\<close>

theorem retirement_checks_presence_only:
  "(\<not> sendMessage_throws E sk (jid_of p) sessionData \<longrightarrow>
      timers (pacing E sk p dir sessionData w) = timers w @ [(10000, RetireTimer p dir)]) \<and>
   (sendMessage_throws E sk (jid_of p) sessionData \<longrightarrow>
      timers (pacing E sk p dir sessionData w) = timers w) \<and>
   (n < length (timers w) \<and> snd (timers w ! n) = RetireTimer p dir \<longrightarrow>
      timers (fire E n w) = take n (timers w) @ drop (Suc n) (timers w)) \<and>
   (map_of (activeSessions w) p = None \<longrightarrow>
      ended (retire E p dir w) = ended w \<and> activeSessions (retire E p dir w) = activeSessions w) \<and>
   (map_of (activeSessions w) p = Some r \<longrightarrow> ended (retire E p dir w) = ended w @ [sock r]) \<and>
   (map_of (activeSessions w) p = Some r \<and> \<not> end_throws E (sock r) \<longrightarrow>
      \<not> has (retire E p dir w) p) \<and>
   (map_of (activeSessions w) p = None \<and> \<not> rmSync_throws E dir \<longrightarrow>
      \<not> existsSync (fs (retire E p dir w)) dir) \<and>
   (map_of (activeSessions w) p = Some r \<and> \<not> end_throws E (sock r) \<and> \<not> rmSync_throws E dir \<longrightarrow>
      \<not> existsSync (fs (retire E p dir w)) dir)"
proof (intro conjI impI)
  assume "\<not> sendMessage_throws E sk (jid_of p) sessionData"
  then show "timers (pacing E sk p dir sessionData w) = timers w @ [(10000, RetireTimer p dir)]"
    by (simp add: pacing_def sendMessage_def prim_defs)
next
  assume "sendMessage_throws E sk (jid_of p) sessionData"
  then show "timers (pacing E sk p dir sessionData w) = timers w"
    by (simp add: pacing_def sendMessage_def delivery_failed_def prim_defs)
next
  assume "n < length (timers w) \<and> snd (timers w ! n) = RetireTimer p dir"
  then show "timers (fire E n w) = take n (timers w) @ drop (Suc n) (timers w)"
    by (simp add: fire_def retire_def Let_def retire_directory_keeps prim_defs
        split: option.splits)
next
  assume none: "map_of (activeSessions w) p = None"
  then show "ended (retire E p dir w) = ended w"
    by (simp add: retire_def retire_directory_keeps)
  from none show "activeSessions (retire E p dir w) = activeSessions w"
    by (simp add: retire_def activeSessions_retire_directory)
next
  assume "map_of (activeSessions w) p = Some r"
  then show "ended (retire E p dir w) = ended w @ [sock r]"
    by (simp add: retire_def Let_def retire_directory_keeps prim_defs)
next
  assume "map_of (activeSessions w) p = Some r \<and> \<not> end_throws E (sock r)"
  then show "\<not> has (retire E p dir w) p"
    by (simp add: retire_def Let_def has_def activeSessions_retire_directory prim_defs
        delete_conv')
next
  assume "map_of (activeSessions w) p = None \<and> \<not> rmSync_throws E dir"
  then show "\<not> existsSync (fs (retire E p dir w)) dir"
    by (simp add: retire_def retire_directory_removes)
next
  assume "map_of (activeSessions w) p = Some r \<and> \<not> end_throws E (sock r) \<and> \<not> rmSync_throws E dir"
  then show "\<not> existsSync (fs (retire E p dir w)) dir"
    by (simp add: retire_def Let_def retire_directory_removes)
qed

theorem retirement_checks_presence_only_witness:
  "map_of (activeSessions (run calm superseded_delivery boot)) pid =
     Some \<lparr>sock = 1, sessionPath = getSessionPath pid, connected = False\<rparr> \<and>
   ended (retire calm pid (getSessionPath pid) (run calm superseded_delivery boot)) = [0, 1] \<and>
   \<not> has (retire calm pid (getSessionPath pid) (run calm superseded_delivery boot)) pid \<and>
   \<not> existsSync (fs (retire calm pid (getSessionPath pid) (run calm superseded_delivery boot)))
       (getSessionPath pid) \<and>
   timers (fire calm 0 (run calm superseded_delivery boot)) = [(3000, PairingTimer 1 pid)] \<and>
   map_of (activeSessions boot) pid = None \<and>
   ended (retire calm pid (getSessionPath pid) boot) = [] \<and>
   \<not> existsSync (fs (retire calm pid (getSessionPath pid) boot)) (getSessionPath pid) \<and>
   timers (pacing calm 0 pid (getSessionPath pid) ''{}'' boot) =
     [(10000, RetireTimer pid (getSessionPath pid))] \<and>
   sendMessage_throws failing 0 (jid_of pid) ''{}'' \<and>
   timers (pacing failing 0 pid (getSessionPath pid) ''{}'' boot) = []"
proof -
  let ?W = "run calm superseded_delivery boot"
  let ?r = "\<lparr>sock = 1, sessionPath = getSessionPath pid, connected = False\<rparr>"
  have rec: "map_of (activeSessions ?W) pid = Some ?r"
    and tm: "0 < length (timers ?W) \<and> snd (timers ?W ! 0) = RetireTimer pid (getSessionPath pid)"
    and vals: "ended ?W = [0]" "timers ?W = [(10000, RetireTimer pid (getSessionPath pid)), (3000, PairingTimer 1 pid)]"
    by (simp_all add: superseded_world)
  have quiet: "\<not> end_throws calm (sock ?r)" "\<not> rmSync_throws calm (getSessionPath pid)"
    "\<not> sendMessage_throws calm 0 (jid_of pid) ''{}''"
    by (simp_all add: calm_def)
  have loud: "sendMessage_throws failing 0 (jid_of pid) ''{}''"
    by (simp add: failing_def calm_def)
  have none: "map_of (activeSessions boot) pid = None" "ended boot = []" "timers boot = []"
    by (simp_all add: boot_def)
  note on_newer = retirement_checks_presence_only [where E = calm and w = ?W and p = pid
      and dir = "getSessionPath pid" and r = ?r and n = 0 and sk = 0 and sessionData = "''{}''"]
  note on_none = retirement_checks_presence_only [where E = calm and w = boot and p = pid
      and dir = "getSessionPath pid" and sk = 0 and sessionData = "''{}''"]
  note on_failure = retirement_checks_presence_only [where E = failing and w = boot and p = pid
      and dir = "getSessionPath pid" and sk = 0 and sessionData = "''{}''"]
  from on_newer rec tm quiet vals have
    "ended (retire calm pid (getSessionPath pid) ?W) = [0, 1]"
    "\<not> has (retire calm pid (getSessionPath pid) ?W) pid"
    "\<not> existsSync (fs (retire calm pid (getSessionPath pid) ?W)) (getSessionPath pid)"
    "timers (fire calm 0 ?W) = [(3000, PairingTimer 1 pid)]"
    by simp_all
  moreover from on_none none quiet have
    "ended (retire calm pid (getSessionPath pid) boot) = []"
    "\<not> existsSync (fs (retire calm pid (getSessionPath pid) boot)) (getSessionPath pid)"
    "timers (pacing calm 0 pid (getSessionPath pid) ''{}'' boot) =
       [(10000, RetireTimer pid (getSessionPath pid))]"
    by simp_all
  moreover from on_failure none loud have
    "timers (pacing failing 0 pid (getSessionPath pid) ''{}'' boot) = []"
    by simp
  ultimately show ?thesis using rec none loud by blast
qed

text \<open>
  C2 as stated fails: the retirement action scheduled by the delivery on connection 0
  fires after a new request has registered connection 1 for the same identifier; it
  closes connection 1, removes its record and deletes its storage directory.
\<close>

theorem retirement_of_newer_session_counterexample:
  "map fst (outbox (run calm superseded_delivery boot)) = [0, 0] \<and>
   timers (run calm superseded_delivery boot) ! 0 = (10000, RetireTimer pid (getSessionPath pid)) \<and>
   map_of (activeSessions (run calm superseded_delivery boot)) pid =
     Some \<lparr>sock = 1, sessionPath = getSessionPath pid, connected = False\<rparr> \<and>
   live (run calm superseded_delivery boot) 1 \<and>
   existsSync (fs (run calm superseded_delivery boot)) (getSessionPath pid) \<and>
   1 \<in> set (ended (step calm (Fire 0) (run calm superseded_delivery boot))) \<and>
   \<not> has (step calm (Fire 0) (run calm superseded_delivery boot)) pid \<and>
   \<not> existsSync (fs (step calm (Fire 0) (run calm superseded_delivery boot))) (getSessionPath pid)"
  by (simp only: superseded_world) (simp add: live_def has_def pid_def calm_def step_defs)

section \<open>Close events\<close>

lemma connection_update_logout:
  "connection_update E sk p dir (Close (Some (loggedOut E))) w =
     store_delete p (emit Broadcast (ConnectionStatus p Logged_out) w)"
  by (simp add: connection_update_def)

lemma connection_update_drop:
  "statusCode \<noteq> Some (loggedOut E) \<Longrightarrow>
   connection_update E sk p dir (Close statusCode) w =
     setTimeout (RetryTimer p) 5000
       (store_delete p (emit Broadcast (ConnectionStatus p Reconnecting) w))"
  by (simp add: connection_update_def)

text \<open>
  C3 (as amended).  For every close event whose disconnect reason is not an explicit
  logout, the handler emits a \<^verbatim>\<open>reconnecting\<close> status, removes the record stored under
  the identifier without calling \<^verbatim>\<open>end()\<close>, and schedules exactly one retry for the
  same identifier, 5000 ms later.  At fire time the retry calls \<^verbatim>\<open>initializeWhatsApp\<close>
  without looking at the Store; when the initialisation resumes and succeeds it registers
  a fresh record under the identifier whether or not a newer record is there, and closes
  nothing.
\<close>

theorem close_schedules_unconditional_retry:
  "(statusCode \<noteq> Some (loggedOut E) \<longrightarrow>
      emitted (connection_update E sk p dir (Close statusCode) w) =
        emitted w @ [(Broadcast, ConnectionStatus p Reconnecting)] \<and>
      activeSessions (connection_update E sk p dir (Close statusCode) w) =
        AList.delete p (activeSessions w) \<and>
      \<not> has (connection_update E sk p dir (Close statusCode) w) p \<and>
      ended (connection_update E sk p dir (Close statusCode) w) = ended w \<and>
      timers (connection_update E sk p dir (Close statusCode) w) =
        timers w @ [(5000, RetryTimer p)]) \<and>
   (existsSync (fs w) (getSessionPath p) \<or> \<not> mkdirSync_throws E (getSessionPath p) \<longrightarrow>
      timers (run_task E (RetryTimer p) w) = timers w @ [(0, ResumeInitialize p RetryCallback)] \<and>
      activeSessions (run_task E (RetryTimer p) w) = activeSessions w \<and>
      ended (run_task E (RetryTimer p) w) = ended w) \<and>
   (\<not> useMultiFileAuthState_throws E (getSessionPath p) \<and> \<not> fetchLatestBaileysVersion_throws E \<and>
      \<not> makeWASocket_throws E \<longrightarrow>
      map_of (activeSessions (run_task E (ResumeInitialize p RetryCallback) w)) p =
        Some \<lparr>sock = length (sockets w), sessionPath = getSessionPath p, connected = False\<rparr> \<and>
      ended (run_task E (ResumeInitialize p RetryCallback) w) = ended w)"
proof (intro conjI impI)
  assume drop: "statusCode \<noteq> Some (loggedOut E)"
  show "emitted (connection_update E sk p dir (Close statusCode) w) =
        emitted w @ [(Broadcast, ConnectionStatus p Reconnecting)]"
    by (simp add: connection_update_drop [OF drop] prim_defs)
  show "activeSessions (connection_update E sk p dir (Close statusCode) w) =
        AList.delete p (activeSessions w)"
    by (simp add: connection_update_drop [OF drop] prim_defs)
  show "\<not> has (connection_update E sk p dir (Close statusCode) w) p"
    by (simp add: connection_update_drop [OF drop] prim_defs has_def delete_conv')
  show "ended (connection_update E sk p dir (Close statusCode) w) = ended w"
    by (simp add: connection_update_drop [OF drop] prim_defs)
  show "timers (connection_update E sk p dir (Close statusCode) w) =
        timers w @ [(5000, RetryTimer p)]"
    by (simp add: connection_update_drop [OF drop] prim_defs)
next
  assume "existsSync (fs w) (getSessionPath p) \<or> \<not> mkdirSync_throws E (getSessionPath p)"
  then show "timers (run_task E (RetryTimer p) w) =
      timers w @ [(0, ResumeInitialize p RetryCallback)]"
    by (auto simp: initializeWhatsApp_def initializeWhatsApp_start_def Let_def prim_defs)
  show "activeSessions (run_task E (RetryTimer p) w) = activeSessions w"
    by (simp add: initializeWhatsApp_keeps)
  show "ended (run_task E (RetryTimer p) w) = ended w"
    by (simp add: initializeWhatsApp_keeps)
next
  assume h: "\<not> useMultiFileAuthState_throws E (getSessionPath p) \<and>
      \<not> fetchLatestBaileysVersion_throws E \<and> \<not> makeWASocket_throws E"
  then show "map_of (activeSessions (run_task E (ResumeInitialize p RetryCallback) w)) p =
        Some \<lparr>sock = length (sockets w), sessionPath = getSessionPath p, connected = False\<rparr>"
    by (simp add: resumeInitialize_success update_conv')
  from h show "ended (run_task E (ResumeInitialize p RetryCallback) w) = ended w"
    by (simp add: resumeInitialize_success)
qed

theorem close_schedules_unconditional_retry_witness:
  "Some 428 \<noteq> Some (loggedOut calm) \<and>
   has one_session pid \<and>
   \<not> has (connection_update calm 0 pid (getSessionPath pid) (Close (Some 428)) one_session) pid \<and>
   ended (connection_update calm 0 pid (getSessionPath pid) (Close (Some 428)) one_session) = [] \<and>
   timers (connection_update calm 0 pid (getSessionPath pid) (Close (Some 428)) one_session) =
     [(3000, PairingTimer 0 pid), (5000, RetryTimer pid)] \<and>
   map_of (activeSessions (run calm retry_over_newer boot)) pid =
     Some \<lparr>sock = 1, sessionPath = getSessionPath pid, connected = False\<rparr> \<and>
   timers (run_task calm (RetryTimer pid) (run calm retry_over_newer boot)) =
     [(5000, RetryTimer pid), (3000, PairingTimer 1 pid), (0, ResumeInitialize pid RetryCallback)] \<and>
   map_of (activeSessions (run_task calm (ResumeInitialize pid RetryCallback)
       (run calm retry_over_newer boot))) pid =
     Some \<lparr>sock = 2, sessionPath = getSessionPath pid, connected = False\<rparr> \<and>
   ended (run_task calm (ResumeInitialize pid RetryCallback) (run calm retry_over_newer boot)) = []"
proof -
  let ?W = "run calm retry_over_newer boot"
  have drop: "Some 428 \<noteq> Some (loggedOut calm)"
    by (simp add: calm_def)
  have quiet: "\<not> mkdirSync_throws calm (getSessionPath pid)"
    "\<not> useMultiFileAuthState_throws calm (getSessionPath pid)"
    "\<not> fetchLatestBaileysVersion_throws calm" "\<not> makeWASocket_throws calm"
    by (simp_all add: calm_def)
  have one: "has one_session pid" "ended one_session = []"
    "timers one_session = [(3000, PairingTimer 0 pid)]"
    by (simp_all add: one_session_world has_def)
  have newer: "map_of (activeSessions ?W) pid =
      Some \<lparr>sock = 1, sessionPath = getSessionPath pid, connected = False\<rparr>"
    "timers ?W = [(5000, RetryTimer pid), (3000, PairingTimer 1 pid)]"
    "ended ?W = []" "length (sockets ?W) = 2"
    by (simp_all add: retry_world)
  note on_close = close_schedules_unconditional_retry [where E = calm and w = one_session
      and p = pid and sk = 0 and dir = "getSessionPath pid" and statusCode = "Some 428"]
  note on_retry = close_schedules_unconditional_retry [where E = calm and w = ?W and p = pid]
  from on_close drop one have
    "\<not> has (connection_update calm 0 pid (getSessionPath pid) (Close (Some 428)) one_session) pid"
    "ended (connection_update calm 0 pid (getSessionPath pid) (Close (Some 428)) one_session) = []"
    "timers (connection_update calm 0 pid (getSessionPath pid) (Close (Some 428)) one_session) =
       [(3000, PairingTimer 0 pid), (5000, RetryTimer pid)]"
    by simp_all
  moreover from on_retry quiet newer have
    "timers (run_task calm (RetryTimer pid) ?W) =
       [(5000, RetryTimer pid), (3000, PairingTimer 1 pid), (0, ResumeInitialize pid RetryCallback)]"
    "map_of (activeSessions (run_task calm (ResumeInitialize pid RetryCallback) ?W)) pid =
       Some \<lparr>sock = 2, sessionPath = getSessionPath pid, connected = False\<rparr>"
    "ended (run_task calm (ResumeInitialize pid RetryCallback) ?W) = []"
    by simp_all
  ultimately show ?thesis using drop one newer by blast
qed

text \<open>
  C3 as stated fails: a request served within the backoff delay has registered
  connection 1; the retry then fires, makes connection 2 and registers it over the newer
  record, and connections 1 and 2 are both live.
\<close>

theorem retry_over_newer_record_counterexample:
  "timers (run calm retry_over_newer boot) ! 0 = (5000, RetryTimer pid) \<and>
   map_of (activeSessions (run calm retry_over_newer boot)) pid =
     Some \<lparr>sock = 1, sessionPath = getSessionPath pid, connected = False\<rparr> \<and>
   live (run calm retry_over_newer boot) 1 \<and>
   map_of (activeSessions (step calm (Fire 1) (step calm (Fire 0) (run calm retry_over_newer boot)))) pid =
     Some \<lparr>sock = 2, sessionPath = getSessionPath pid, connected = False\<rparr> \<and>
   live (step calm (Fire 1) (step calm (Fire 0) (run calm retry_over_newer boot))) 1 \<and>
   live (step calm (Fire 1) (step calm (Fire 0) (run calm retry_over_newer boot))) 2"
  by (simp only: retry_world) (simp add: live_def pid_def calm_def step_defs)

text \<open>
  C7.  For every close event whose disconnect reason is the logout status, the handler
  emits a \<^verbatim>\<open>logged_out\<close> status and removes the identifier's record from the Store in
  the same run of the handler, and it schedules nothing: the pending computations are the
  same as before.
\<close>

theorem logout_removes_record:
  "emitted (connection_update E sk p dir (Close (Some (loggedOut E))) w) =
     emitted w @ [(Broadcast, ConnectionStatus p Logged_out)] \<and>
   \<not> has (connection_update E sk p dir (Close (Some (loggedOut E))) w) p \<and>
   timers (connection_update E sk p dir (Close (Some (loggedOut E))) w) = timers w \<and>
   (sk < length (sockets w) \<longrightarrow>
      emitted (step E (ConnectionUpdate sk (Close (Some (loggedOut E)))) w) =
        emitted w @ [(Broadcast, ConnectionStatus (sockets w ! sk) Logged_out)] \<and>
      \<not> has (step E (ConnectionUpdate sk (Close (Some (loggedOut E)))) w) (sockets w ! sk) \<and>
      timers (step E (ConnectionUpdate sk (Close (Some (loggedOut E)))) w) = timers w)"
  by (simp add: connection_update_logout note_closed_def prim_defs has_def delete_conv')

theorem logout_removes_record_witness:
  "(0::nat) < length (sockets one_session) \<and> sockets one_session ! 0 = pid \<and>
   has one_session pid \<and>
   \<not> has (step calm (ConnectionUpdate 0 (Close (Some 401))) one_session) pid \<and>
   timers (step calm (ConnectionUpdate 0 (Close (Some 401))) one_session) =
     [(3000, PairingTimer 0 pid)] \<and>
   emitted (step calm (ConnectionUpdate 0 (Close (Some 401))) one_session) =
     [(ToSocket 0, ConnectionStatus pid Initializing),
      (Broadcast, ConnectionStatus pid Logged_out)]"
proof -
  have code: "loggedOut calm = 401"
    by (simp add: calm_def)
  have one: "0 < length (sockets one_session)" "sockets one_session ! 0 = pid"
    "has one_session pid" "timers one_session = [(3000, PairingTimer 0 pid)]"
    "emitted one_session = [(ToSocket 0, ConnectionStatus pid Initializing)]"
    by (simp_all add: one_session_world has_def)
  from logout_removes_record [where E = calm and sk = 0 and w = one_session] code one
  show ?thesis by simp
qed

section \<open>Validation at the entry points\<close>

lemma generateSession_rejects:
  "length (digits_only s) < 10 \<Longrightarrow>
   generateSession E client (Text s) w =
     emit (ToSocket client)
       (Error None (if s = [] then ''Phone number is required'' else ''Invalid phone number format'')) w"
  by (simp add: generateSession_def Let_def)

text \<open>
  C4.  The claim holds for the \<^verbatim>\<open>generateSession\<close> handler and fails for
  \<^verbatim>\<open>POST /api/generate-session\<close>, which has no length check: the identifier \<^verbatim>\<open>123\<close>
  is rejected by the first with no change to the Store, and accepted by the second, which
  makes the storage directory, makes a connection and registers a record under \<^verbatim>\<open>123\<close>.
\<close>

theorem rest_accepts_short_identifier:
  "emitted (run calm [GenerateSession 0 (Text ''123'')] boot) =
     [(ToSocket 0, Error None ''Invalid phone number format'')] \<and>
   activeSessions (run calm [GenerateSession 0 (Text ''123'')] boot) = [] \<and>
   timers (run calm [GenerateSession 0 (Text ''123'')] boot) = [] \<and>
   responses (run calm [PostGenerateSession (Text ''123''), Fire 0] boot) = [Success ''123''] \<and>
   activeSessions (run calm [PostGenerateSession (Text ''123''), Fire 0] boot) =
     [(''123'', \<lparr>sock = 0, sessionPath = ''sessions/session_123'', connected = False\<rparr>)] \<and>
   sockets (run calm [PostGenerateSession (Text ''123''), Fire 0] boot) = [''123''] \<and>
   fs (run calm [PostGenerateSession (Text ''123''), Fire 0] boot) ''sessions/session_123'' =
     Some (Dir [])"
  by (simp add: calm_def boot_def eval_defs)

section \<open>Failures\<close>

lemma emitted_retire: "emitted (retire E p dir w) = emitted w"
  by (simp add: retire_def Let_def retire_directory_keeps prim_defs split: option.splits)

lemma unhandled_retire: "unhandledRejections (retire E p dir w) = unhandledRejections w"
  by (simp add: retire_def Let_def retire_directory_keeps prim_defs split: option.splits)

lemma unhandled_stabilize:
  "unhandledRejections (stabilize E sk p dir w) = unhandledRejections w"
  by (simp add: stabilize_def sendMessage_def delivery_failed_def prim_defs
      split: outcome.splits option.splits)

text \<open>
  C6 (as amended).  An exception raised during \<^verbatim>\<open>initializeWhatsApp\<close> (by the directory
  creation before its awaits; by the loading of the authentication state, the version
  fetch or the connection construction after them) is caught, surfaced as an error
  notification scoped to the identifier, and re-thrown to the caller of
  \<^verbatim>\<open>initializeWhatsApp\<close>: a request handler, which answers with an error of its own, or
  the retry callback, which does not handle it.  An exception raised inside the
  pairing-code callback or during delivery is caught and surfaced as an error notification
  only.  An exception raised inside the retirement callback is caught and logged only: no
  notification is emitted.  None of these three callbacks re-throws.
\<close>

theorem failures_notified_or_logged:
  "(\<not> existsSync (fs w) (getSessionPath p) \<and> mkdirSync_throws E (getSessionPath p) \<longrightarrow>
      initializeWhatsApp E p c w =
        settle c p (Throw FsError :: unit outcome)
          (emit Broadcast (Error (Some p) ''Failed to initialize WhatsApp connection'') w)) \<and>
   (useMultiFileAuthState_throws E (getSessionPath p) \<or> fetchLatestBaileysVersion_throws E \<or>
      makeWASocket_throws E \<longrightarrow>
      resumeInitialize E p c w =
        settle c p (Throw ProtocolError :: nat outcome)
          (emit Broadcast (Error (Some p) ''Failed to initialize WhatsApp connection'') w)) \<and>
   settle (SocketHandler client) p (Throw e :: unit outcome) w =
     emit (ToSocket client) (Error (Some p) ''Failed to generate session'') w \<and>
   settle RestHandler p (Throw e :: unit outcome) w =
     respond (Status 500 ''Failed to generate session'') w \<and>
   unhandledRejections (settle RetryCallback p (Throw e :: unit outcome) w) =
     unhandledRejections w @ [e] \<and>
   (requestPairingCode E sk p ''SAMUEL01'' = Throw e \<longrightarrow>
      pairing E sk p w =
        emit Broadcast (Error (Some p) ''Failed to generate custom pairing code'') w) \<and>
   (createCredsJson E (fs w) dir = Return None \<longrightarrow>
      stabilize E sk p dir w =
        emit Broadcast (Error (Some p) ''Error creating session file'') w) \<and>
   (createCredsJson E (fs w) dir = Return (Some sessionData) \<and>
      sendMessage_throws E sk (jid_of p) instructionsMessage \<longrightarrow>
      emitted (stabilize E sk p dir w) =
        emitted w @ [(Broadcast, Error (Some p) ''Failed to send session via WhatsApp'')]) \<and>
   (sendMessage_throws E sk (jid_of p) sessionData \<longrightarrow>
      emitted (pacing E sk p dir sessionData w) =
        emitted w @ [(Broadcast, Error (Some p) ''Failed to send session via WhatsApp'')]) \<and>
   unhandledRejections (pairing E sk p w) = unhandledRejections w \<and>
   unhandledRejections (stabilize E sk p dir w) = unhandledRejections w \<and>
   unhandledRejections (pacing E sk p dir sessionData w) = unhandledRejections w \<and>
   emitted (retire E p dir w) = emitted w \<and>
   unhandledRejections (retire E p dir w) = unhandledRejections w"
proof (intro conjI impI)
  assume "\<not> existsSync (fs w) (getSessionPath p) \<and> mkdirSync_throws E (getSessionPath p)"
  then show "initializeWhatsApp E p c w =
        settle c p (Throw FsError :: unit outcome)
          (emit Broadcast (Error (Some p) ''Failed to initialize WhatsApp connection'') w)"
    by (simp add: initializeWhatsApp_def initializeWhatsApp_start_def initialize_failed_def)
next
  assume "useMultiFileAuthState_throws E (getSessionPath p) \<or> fetchLatestBaileysVersion_throws E \<or>
      makeWASocket_throws E"
  then show "resumeInitialize E p c w =
        settle c p (Throw ProtocolError :: nat outcome)
          (emit Broadcast (Error (Some p) ''Failed to initialize WhatsApp connection'') w)"
    by (auto simp: resumeInitialize_def initializeWhatsApp_resume_def initialize_failed_def)
next
  show "settle (SocketHandler client) p (Throw e :: unit outcome) w =
     emit (ToSocket client) (Error (Some p) ''Failed to generate session'') w"
    by (simp add: settle_def)
  show "settle RestHandler p (Throw e :: unit outcome) w =
     respond (Status 500 ''Failed to generate session'') w"
    by (simp add: settle_def)
  show "unhandledRejections (settle RetryCallback p (Throw e :: unit outcome) w) =
     unhandledRejections w @ [e]"
    by (simp add: settle_def)
next
  assume "requestPairingCode E sk p ''SAMUEL01'' = Throw e"
  then show "pairing E sk p w =
        emit Broadcast (Error (Some p) ''Failed to generate custom pairing code'') w"
    by (simp add: pairing_def)
next
  assume "createCredsJson E (fs w) dir = Return None"
  then show "stabilize E sk p dir w =
        emit Broadcast (Error (Some p) ''Error creating session file'') w"
    by (simp add: stabilize_def)
next
  assume "createCredsJson E (fs w) dir = Return (Some sessionData) \<and>
      sendMessage_throws E sk (jid_of p) instructionsMessage"
  then show "emitted (stabilize E sk p dir w) =
        emitted w @ [(Broadcast, Error (Some p) ''Failed to send session via WhatsApp'')]"
    by (simp add: stabilize_def sendMessage_def delivery_failed_def prim_defs)
next
  assume "sendMessage_throws E sk (jid_of p) sessionData"
  then show "emitted (pacing E sk p dir sessionData w) =
        emitted w @ [(Broadcast, Error (Some p) ''Failed to send session via WhatsApp'')]"
    by (simp add: pacing_def sendMessage_def delivery_failed_def prim_defs)
next
  show "unhandledRejections (pairing E sk p w) = unhandledRejections w"
    by (simp add: pairing_def prim_defs split: outcome.splits)
  show "unhandledRejections (stabilize E sk p dir w) = unhandledRejections w"
    by (rule unhandled_stabilize)
  show "unhandledRejections (pacing E sk p dir sessionData w) = unhandledRejections w"
    by (simp add: pacing_def sendMessage_def delivery_failed_def prim_defs)
  show "emitted (retire E p dir w) = emitted w"
    by (rule emitted_retire)
  show "unhandledRejections (retire E p dir w) = unhandledRejections w"
    by (rule unhandled_retire)
qed

theorem failures_notified_or_logged_witness:
  "\<not> existsSync (fs boot) (getSessionPath pid) \<and> mkdirSync_throws failing (getSessionPath pid) \<and>
   emitted (initializeWhatsApp failing pid (SocketHandler 7) boot) =
     [(Broadcast, Error (Some pid) ''Failed to initialize WhatsApp connection''),
      (ToSocket 7, Error (Some pid) ''Failed to generate session'')] \<and>
   responses (resumeInitialize failing pid RestHandler boot) =
     [Status 500 ''Failed to generate session''] \<and>
   emitted (resumeInitialize failing pid RetryCallback boot) =
     [(Broadcast, Error (Some pid) ''Failed to initialize WhatsApp connection'')] \<and>
   unhandledRejections (resumeInitialize failing pid RetryCallback boot) = [ProtocolError] \<and>
   emitted (pairing failing 0 pid boot) =
     [(Broadcast, Error (Some pid) ''Failed to generate custom pairing code'')] \<and>
   createCredsJson failing (fs boot) (getSessionPath pid) = Return None \<and>
   emitted (stabilize failing 0 pid (getSessionPath pid) boot) =
     [(Broadcast, Error (Some pid) ''Error creating session file'')] \<and>
   createCredsJson failing (fs one_session) (getSessionPath pid) = Return (Some ''{...}'') \<and>
   emitted (stabilize failing 0 pid (getSessionPath pid) one_session) =
     [(ToSocket 0, ConnectionStatus pid Initializing),
      (Broadcast, Error (Some pid) ''Failed to send session via WhatsApp'')] \<and>
   emitted (pacing failing 0 pid (getSessionPath pid) ''{...}'' boot) =
     [(Broadcast, Error (Some pid) ''Failed to send session via WhatsApp'')] \<and>
   emitted (retire failing pid (getSessionPath pid) one_session) =
     [(ToSocket 0, ConnectionStatus pid Initializing)]"
proof -
  have loud: "mkdirSync_throws failing (getSessionPath pid)"
    "useMultiFileAuthState_throws failing (getSessionPath pid) \<or>
       fetchLatestBaileysVersion_throws failing \<or> makeWASocket_throws failing"
    "requestPairingCode failing 0 pid ''SAMUEL01'' = Throw ProtocolError"
    "sendMessage_throws failing 0 (jid_of pid) instructionsMessage"
    "sendMessage_throws failing 0 (jid_of pid) ''{...}''"
    by (simp_all add: failing_def calm_def)
  have fresh: "\<not> existsSync (fs boot) (getSessionPath pid)"
    "emitted boot = []" "responses boot = []" "unhandledRejections boot = []"
    by (simp_all add: boot_def existsSync_def getSessionPath_def path_join_def sessionsDir_def)
  have absent: "createCredsJson failing (fs boot) (getSessionPath pid) = Return None"
    by (simp add: createCredsJson_def assemble_object_def read_credsData_def readdirSync_def
        existsSync_def obind_def boot_def getSessionPath_def path_join_def sessionsDir_def)
  have present: "createCredsJson failing (fs one_session) (getSessionPath pid) = Return (Some ''{...}'')"
    by (simp only: one_session_world)
      (simp add: createCredsJson_def assemble_object_def read_credsData_def readdirSync_def
        read_fragment_def existsSync_def obind_def getSessionPath_def path_join_def
        sessionsDir_def combinedCreds_def spread_def own_properties_def set_property_def
        failing_def calm_def pid_def)
  have one: "emitted one_session = [(ToSocket 0, ConnectionStatus pid Initializing)]"
    by (simp add: one_session_world)
  note at_boot = failures_notified_or_logged [where E = failing and w = boot and p = pid
      and sk = 0 and dir = "getSessionPath pid" and e = ProtocolError
      and sessionData = "''{...}''"]
  note at_one = failures_notified_or_logged [where E = failing and w = one_session and p = pid
      and sk = 0 and dir = "getSessionPath pid" and sessionData = "''{...}''"]
  from at_boot [where c = "SocketHandler 7" and client = 7] loud fresh have
    "emitted (initializeWhatsApp failing pid (SocketHandler 7) boot) =
       [(Broadcast, Error (Some pid) ''Failed to initialize WhatsApp connection''),
        (ToSocket 7, Error (Some pid) ''Failed to generate session'')]"
    by (simp add: settle_def emit_def)
  moreover from at_boot [where c = RestHandler] loud fresh have
    "responses (resumeInitialize failing pid RestHandler boot) =
       [Status 500 ''Failed to generate session'']"
    by (simp add: settle_def emit_def respond_def)
  moreover from at_boot [where c = RetryCallback] loud fresh have
    "emitted (resumeInitialize failing pid RetryCallback boot) =
       [(Broadcast, Error (Some pid) ''Failed to initialize WhatsApp connection'')]"
    "unhandledRejections (resumeInitialize failing pid RetryCallback boot) = [ProtocolError]"
    by (simp_all add: settle_def emit_def)
  moreover from at_boot loud fresh absent have
    "emitted (pairing failing 0 pid boot) =
       [(Broadcast, Error (Some pid) ''Failed to generate custom pairing code'')]"
    "emitted (stabilize failing 0 pid (getSessionPath pid) boot) =
       [(Broadcast, Error (Some pid) ''Error creating session file'')]"
    "emitted (pacing failing 0 pid (getSessionPath pid) ''{...}'' boot) =
       [(Broadcast, Error (Some pid) ''Failed to send session via WhatsApp'')]"
    by (simp_all add: emit_def)
  moreover from at_one loud present one have
    "emitted (stabilize failing 0 pid (getSessionPath pid) one_session) =
       [(ToSocket 0, ConnectionStatus pid Initializing),
        (Broadcast, Error (Some pid) ''Failed to send session via WhatsApp'')]"
    "emitted (retire failing pid (getSessionPath pid) one_session) =
       [(ToSocket 0, ConnectionStatus pid Initializing)]"
    by simp_all
  ultimately show ?thesis using loud fresh absent present by blast
qed

text \<open>
  C6 as stated fails: \<^verbatim>\<open>end()\<close> throws inside the retirement callback; the exception
  is caught, no notification is emitted, and the record stays in the Store.
\<close>

theorem retirement_failure_not_notified_counterexample:
  "end_throws stubborn 0 \<and>
   timers (run stubborn delivered boot) ! 0 = (10000, RetireTimer pid (getSessionPath pid)) \<and>
   map_of (activeSessions (run stubborn delivered boot)) pid =
     Some \<lparr>sock = 0, sessionPath = getSessionPath pid, connected = True\<rparr> \<and>
   ended (step stubborn (Fire 0) (run stubborn delivered boot)) = [0] \<and>
   emitted (step stubborn (Fire 0) (run stubborn delivered boot)) =
     emitted (run stubborn delivered boot) \<and>
   has (step stubborn (Fire 0) (run stubborn delivered boot)) pid"
  by (simp only: delivered_world) (simp add: has_def pid_def stubborn_def calm_def step_defs)

section \<open>Delivery\<close>

lemma opened_world:
  "run mute opened boot =
     \<lparr>activeSessions = [(pid, \<lparr>sock = 0, sessionPath = getSessionPath pid, connected = True\<rparr>)],
      fs = [sessionsDir \<mapsto> Dir [], getSessionPath pid \<mapsto> Dir []],
      timers = [(3000, StabilizeTimer 0 pid (getSessionPath pid))],
      emitted =
        [(ToSocket 0, ConnectionStatus pid Initializing),
         (Broadcast, PairingCode pid ''SAMUEL01''),
         (Broadcast, ConnectionStatus pid Connected)],
      responses = [], sockets = [pid], ended = [], closed = [], outbox = [],
      unhandledRejections = []\<rparr>"
  by (simp add: opened_def mute_def pid_def calm_def boot_def eval_defs)

lemma instructionsMessage_text:
  "\<exists>h m. instructionsMessage =
     h @ ''2. Use it in your WhatsApp bot project'' @ m @
     ''The creds.json content will be sent in the next message...''"
proof -
  have "instructionsMessage =
     ([CHR 0xF0, CHR 0x9F, CHR 0x94, CHR 0x90] @
      '' *WhatsApp Session Generated Successfully*'' @ [CHR 0x0A, CHR 0x0A] @
      [CHR 0xF0, CHR 0x9F, CHR 0x93, CHR 0xB1] @ '' *Instructions:*'' @ [CHR 0x0A] @
      ''1. Save the next message as '' @ [CHR 0x22] @ ''creds.json'' @ [CHR 0x22, CHR 0x0A]) @
     ''2. Use it in your WhatsApp bot project'' @
     ([CHR 0x0A] @ ''3. Keep it secure and don'' @ [CHR 0x27] @ ''t share'' @ [CHR 0x0A, CHR 0x0A] @
      [CHR 0xE2, CHR 0x9A, CHR 0xA0, CHR 0xEF, CHR 0xB8, CHR 0x8F] @
      '' *Important:* This session is tied to this device. If you logout from WhatsApp, you'' @
      [CHR 0x27] @ ''ll need to generate a new session.'' @ [CHR 0x0A, CHR 0x0A]) @
     ''The creds.json content will be sent in the next message...''"
    by (simp add: instructionsMessage_def)
  then show ?thesis by blast
qed

lemma session_dir_assembles:
  "createCredsJson E [sessionsDir \<mapsto> Dir [], getSessionPath pid \<mapsto> Dir []] (getSessionPath pid) =
     Return (Some (JSON_stringify E
       (JObject [(''preKeys'', JObject []), (''senderKeys'', JObject []),
                 (''timestamp'', JString (toISOString_now E))])))"
  by (simp add: createCredsJson_def assemble_object_def read_credsData_def readdirSync_def
      read_fragment_def existsSync_def obind_def getSessionPath_def path_join_def
      sessionsDir_def combinedCreds_def spread_def own_properties_def set_property_def pid_def)

text \<open>
  C8 (as amended).  An \<^verbatim>\<open>open\<close> update on a connection whose identifier has a record
  schedules the stabilization callback for that connection.  When the assembly succeeds,
  the callback first sends the instructions message (a fixed text that tells the user what
  to do with the next message) over that same connection to the identifier's address.
  If that send succeeds, nothing is notified and the second half of the delivery is
  scheduled 2000 ms later; it sends the assembled text unchanged over the same connection
  to the same address, as the second and last message, and schedules at most the
  retirement.  If the first send fails, no second message is scheduled or sent, and an
  error is notified.
\<close>

theorem delivery_instructions_then_artifact:
  "(map_of (activeSessions w) p = Some r \<longrightarrow>
      timers (connection_update E sk p dir Open w) = timers w @ [(3000, StabilizeTimer sk p dir)]) \<and>
   (createCredsJson E (fs w) dir = Return (Some sessionData) \<longrightarrow>
      outbox (stabilize E sk p dir w) = outbox w @ [(sk, jid_of p, instructionsMessage)]) \<and>
   (createCredsJson E (fs w) dir = Return (Some sessionData) \<and>
      \<not> sendMessage_throws E sk (jid_of p) instructionsMessage \<longrightarrow>
      timers (stabilize E sk p dir w) = timers w @ [(2000, PacingTimer sk p dir sessionData)] \<and>
      emitted (stabilize E sk p dir w) = emitted w \<and>
      outbox (run_task E (PacingTimer sk p dir sessionData) (stabilize E sk p dir w)) =
        outbox w @ [(sk, jid_of p, instructionsMessage), (sk, jid_of p, sessionData)]) \<and>
   (createCredsJson E (fs w) dir = Return (Some sessionData) \<and>
      sendMessage_throws E sk (jid_of p) instructionsMessage \<longrightarrow>
      timers (stabilize E sk p dir w) = timers w \<and>
      emitted (stabilize E sk p dir w) =
        emitted w @ [(Broadcast, Error (Some p) ''Failed to send session via WhatsApp'')]) \<and>
   outbox (run_task E (PacingTimer sk p dir sessionData) w) =
     outbox w @ [(sk, jid_of p, sessionData)] \<and>
   (timers (run_task E (PacingTimer sk p dir sessionData) w) = timers w \<or>
    timers (run_task E (PacingTimer sk p dir sessionData) w) =
      timers w @ [(10000, RetireTimer p dir)]) \<and>
   jid_of p = p @ ''@s.whatsapp.net'' \<and>
   (\<exists>h m. instructionsMessage =
      h @ ''2. Use it in your WhatsApp bot project'' @ m @
      ''The creds.json content will be sent in the next message...'')"
proof (intro conjI impI)
  assume "map_of (activeSessions w) p = Some r"
  then show "timers (connection_update E sk p dir Open w) =
      timers w @ [(3000, StabilizeTimer sk p dir)]"
    by (simp add: connection_update_def Let_def prim_defs)
next
  assume "createCredsJson E (fs w) dir = Return (Some sessionData)"
  then show "outbox (stabilize E sk p dir w) = outbox w @ [(sk, jid_of p, instructionsMessage)]"
    by (simp add: stabilize_def sendMessage_def delivery_failed_def prim_defs)
next
  assume h: "createCredsJson E (fs w) dir = Return (Some sessionData) \<and>
      \<not> sendMessage_throws E sk (jid_of p) instructionsMessage"
  then have first: "outbox (stabilize E sk p dir w) = outbox w @ [(sk, jid_of p, instructionsMessage)]"
    by (simp add: stabilize_def sendMessage_def prim_defs)
  from h show "timers (stabilize E sk p dir w) =
      timers w @ [(2000, PacingTimer sk p dir sessionData)]"
    by (simp add: stabilize_def sendMessage_def prim_defs)
  from h show "emitted (stabilize E sk p dir w) = emitted w"
    by (simp add: stabilize_def sendMessage_def prim_defs)
  show "outbox (run_task E (PacingTimer sk p dir sessionData) (stabilize E sk p dir w)) =
        outbox w @ [(sk, jid_of p, instructionsMessage), (sk, jid_of p, sessionData)]"
    by (simp add: first pacing_def sendMessage_def delivery_failed_def prim_defs)
next
  assume h: "createCredsJson E (fs w) dir = Return (Some sessionData) \<and>
      sendMessage_throws E sk (jid_of p) instructionsMessage"
  then show "timers (stabilize E sk p dir w) = timers w"
    by (simp add: stabilize_def sendMessage_def delivery_failed_def prim_defs)
  from h show "emitted (stabilize E sk p dir w) =
        emitted w @ [(Broadcast, Error (Some p) ''Failed to send session via WhatsApp'')]"
    by (simp add: stabilize_def sendMessage_def delivery_failed_def prim_defs)
next
  show "outbox (run_task E (PacingTimer sk p dir sessionData) w) =
     outbox w @ [(sk, jid_of p, sessionData)]"
    by (simp add: pacing_def sendMessage_def delivery_failed_def prim_defs)
  show "timers (run_task E (PacingTimer sk p dir sessionData) w) = timers w \<or>
    timers (run_task E (PacingTimer sk p dir sessionData) w) =
      timers w @ [(10000, RetireTimer p dir)]"
    by (simp add: pacing_def sendMessage_def delivery_failed_def prim_defs)
  show "jid_of p = p @ ''@s.whatsapp.net''"
    by (simp add: jid_of_def)
  show "\<exists>h m. instructionsMessage =
      h @ ''2. Use it in your WhatsApp bot project'' @ m @
      ''The creds.json content will be sent in the next message...''"
    by (rule instructionsMessage_text)
qed

theorem delivery_instructions_then_artifact_witness:
  "map_of (activeSessions one_session) pid =
     Some \<lparr>sock = 0, sessionPath = getSessionPath pid, connected = False\<rparr> \<and>
   timers (connection_update calm 0 pid (getSessionPath pid) Open one_session) =
     [(3000, PairingTimer 0 pid), (3000, StabilizeTimer 0 pid (getSessionPath pid))] \<and>
   createCredsJson calm (fs one_session) (getSessionPath pid) = Return (Some ''{...}'') \<and>
   timers (stabilize calm 0 pid (getSessionPath pid) one_session) =
     [(3000, PairingTimer 0 pid), (2000, PacingTimer 0 pid (getSessionPath pid) ''{...}'')] \<and>
   outbox (run_task calm (PacingTimer 0 pid (getSessionPath pid) ''{...}'')
       (stabilize calm 0 pid (getSessionPath pid) one_session)) =
     [(0, ''15551234567@s.whatsapp.net'', instructionsMessage),
      (0, ''15551234567@s.whatsapp.net'', ''{...}'')] \<and>
   createCredsJson mute (fs one_session) (getSessionPath pid) = Return (Some ''{...}'') \<and>
   sendMessage_throws mute 0 (jid_of pid) instructionsMessage \<and>
   outbox (stabilize mute 0 pid (getSessionPath pid) one_session) =
     [(0, ''15551234567@s.whatsapp.net'', instructionsMessage)] \<and>
   timers (stabilize mute 0 pid (getSessionPath pid) one_session) = [(3000, PairingTimer 0 pid)]"
proof -
  let ?r = "\<lparr>sock = 0, sessionPath = getSessionPath pid, connected = False\<rparr>"
  have one: "map_of (activeSessions one_session) pid = Some ?r"
    "timers one_session = [(3000, PairingTimer 0 pid)]" "outbox one_session = []"
    by (simp_all add: one_session_world)
  have quiet: "\<not> sendMessage_throws calm 0 (jid_of pid) instructionsMessage"
    by (simp add: calm_def)
  have loud: "sendMessage_throws mute 0 (jid_of pid) instructionsMessage"
    by (simp add: mute_def calm_def)
  have present: "createCredsJson calm (fs one_session) (getSessionPath pid) = Return (Some ''{...}'')"
    "createCredsJson mute (fs one_session) (getSessionPath pid) = Return (Some ''{...}'')"
    by (simp_all add: one_session_world session_dir_assembles) (simp_all add: mute_def calm_def)
  have jid: "jid_of pid = ''15551234567@s.whatsapp.net''"
    by (simp add: jid_of_def pid_def)
  from delivery_instructions_then_artifact [where E = calm and w = one_session and p = pid
      and sk = 0 and dir = "getSessionPath pid" and r = ?r and sessionData = "''{...}''"]
    one quiet present
  have "timers (connection_update calm 0 pid (getSessionPath pid) Open one_session) =
     [(3000, PairingTimer 0 pid), (3000, StabilizeTimer 0 pid (getSessionPath pid))]"
    "timers (stabilize calm 0 pid (getSessionPath pid) one_session) =
     [(3000, PairingTimer 0 pid), (2000, PacingTimer 0 pid (getSessionPath pid) ''{...}'')]"
    "outbox (run_task calm (PacingTimer 0 pid (getSessionPath pid) ''{...}'')
       (stabilize calm 0 pid (getSessionPath pid) one_session)) =
     [(0, jid_of pid, instructionsMessage), (0, jid_of pid, ''{...}'')]"
    by simp_all
  moreover
  from delivery_instructions_then_artifact [where E = mute and w = one_session and p = pid
      and sk = 0 and dir = "getSessionPath pid" and sessionData = "''{...}''"]
    one loud present
  have "outbox (stabilize mute 0 pid (getSessionPath pid) one_session) =
     [(0, jid_of pid, instructionsMessage)]"
    "timers (stabilize mute 0 pid (getSessionPath pid) one_session) = [(3000, PairingTimer 0 pid)]"
    by simp_all
  ultimately show ?thesis using one present loud
    by (simp add: jid)
qed

text \<open>
  C8 as stated fails: the assembly succeeds and the first send throws; the delivery has
  made one \<^verbatim>\<open>sendMessage\<close> call, nothing is pending, and an error is notified.
\<close>

theorem first_send_failure_counterexample:
  "createCredsJson mute (fs (run mute opened boot)) (getSessionPath pid) = Return (Some ''{...}'') \<and>
   timers (run mute opened boot) = [(3000, StabilizeTimer 0 pid (getSessionPath pid))] \<and>
   outbox (run mute opened boot) = [] \<and>
   sendMessage_throws mute 0 (jid_of pid) instructionsMessage \<and>
   outbox (step mute (Fire 0) (run mute opened boot)) = [(0, jid_of pid, instructionsMessage)] \<and>
   timers (step mute (Fire 0) (run mute opened boot)) = [] \<and>
   emitted (step mute (Fire 0) (run mute opened boot)) =
     emitted (run mute opened boot) @
       [(Broadcast, Error (Some pid) ''Failed to send session via WhatsApp'')]"
  by (simp only: opened_world) (simp add: pid_def mute_def calm_def step_defs)

section \<open>Download\<close>







end
